theory Spec2Isabelle
  imports Complex_Main "HOL-Library.Sublist"
begin

section \<open>Data model (database.py)\<close>

text \<open>
  The tables of \<^verbatim>\<open>database.py\<close> that the booking, session, report and tagging helpers of
  \<^verbatim>\<open>db_helpers.py\<close> read and write. Only the columns those helpers touch are kept.
  A nullable column is an \<open>option\<close>; a JSON column holding a list of dicts is a list of
  records whose fields are the dict's keys, each \<open>None\<close> when the key is absent
  (Python's \<^verbatim>\<open>d.get(k, default)\<close> then yields the default).

  Every helper opens a session, works, commits, and returns its failure value from the
  \<^verbatim>\<open>except Exception\<close> branch when the database raises. The database is PostgreSQL with
  the schema of \<^verbatim>\<open>database.py\<close>, so a commit is refused, and nothing of the call is stored,
  when a row to insert names a user, field, booking, session or report that has no row
  (the foreign keys), when a tag number is already stored (the unique index), or when a
  value for an integer column is outside 32 bits. These refusals are modelled. A lost
  connection is not. Prices are stored and never computed with.
\<close>

text \<open>One dict of \<^verbatim>\<open>Field.quarry_species\<close>: keys species, total, remaining.\<close>

record quota =
  q_species :: "string option"
  q_total :: "int option"
  q_remaining :: "int option"

record Field =
  f_name :: string
  capacity :: int
  blocked_dates :: "string list option"
  field_type :: "string option"
  quarry_total :: "int option"
  quarry_remaining :: "int option"
  quarry_species :: "quota list option"
  auto_approve_bookings :: "bool option"
  last_visit_date :: "string option"
  last_visit_had_harvest :: "bool option"

record Booking =
  b_id :: int
  b_field_id :: int
  b_hunter_id :: int
  b_date :: string
  b_num_hunters :: int
  b_total_price :: real
  b_status :: string
  b_payment_method :: string
  b_payment_id :: string

record HuntSession =
  hs_id :: int
  hs_booking_id :: int
  hs_hunter_id :: int
  hs_field_id :: int
  start_time :: "int option"
  end_time :: "int option"
  hs_status :: string

text \<open>
  One dict of \<^verbatim>\<open>species_harvested\<close>: keys species and quantity, and the key
  \<^verbatim>\<open>' species'\<close> (with a leading blank) that \<^verbatim>\<open>create_hunt_report\<close> falls back to.
\<close>

record harvested =
  h_species :: "string option"
  h_blank_species :: "string option"
  h_quantity :: "int option"

text \<open>The keys of \<^verbatim>\<open>report_data\<close> that decide what is written; the free-text keys are left out.\<close>

record report_data =
  rd_animals_harvested :: "int option"
  rd_species_harvested :: "harvested list option"
  rd_review_rating :: "int option"

record HuntReport =
  r_id :: int
  r_session_id :: int
  r_field_id :: int
  r_hunter_id :: int
  r_animals_harvested :: int
  r_species_harvested :: "harvested list"
  r_review_rating :: "int option"

record AnimalTag =
  t_id :: int
  tag_number :: string
  t_hunt_report_id :: int
  t_hunter_id :: int
  t_field_id :: int
  t_species :: string
  t_condition :: string
  photo_path :: "string option"
  qr_code_path :: string
  t_animal_tag :: "string option"
  t_disease_type :: "string option"
  t_notes :: "string option"

text \<open>
  The database. Of the users only the ids are kept. Fields are keyed by their primary
  key: these helpers look a field up by id and update it, and never insert one. Bookings,
  sessions, reports and tags are row lists, each row carrying its id.
\<close>

record db =
  tbl_users :: "int list"
  tbl_fields :: "int \<rightharpoonup> Field"
  tbl_bookings :: "Booking list"
  tbl_hunt_sessions :: "HuntSession list"
  tbl_hunt_reports :: "HuntReport list"
  tbl_animal_tags :: "AnimalTag list"

text \<open>
  What the database engine decides and the code cannot: which of several matching rows a
  query without ORDER BY gives \<^verbatim>\<open>.first()\<close>, and the text of the exception raised when a
  commit is refused.
\<close>

record engine =
  row_choice :: nat
  error_text :: string

definition first_row :: "engine \<Rightarrow> 'a list \<Rightarrow> 'a option" where
  "first_row e rows = (if rows = [] then None else Some (rows ! (row_choice e mod length rows)))"

text \<open>
  The id an autoincrement primary key gives the next row (the engine's sequence may skip
  values after a refused insert; nothing below depends on the value).
\<close>

definition next_id :: "int list \<Rightarrow> int" where
  "next_id ids = foldr max ids 0 + 1"

text \<open>The values an Integer column takes.\<close>

definition int4 :: "int \<Rightarrow> bool" where
  "int4 n = (- 2147483648 \<le> n \<and> n \<le> 2147483647)"

section \<open>Python's str on integers\<close>

function str_nat :: "nat \<Rightarrow> string" where
  "str_nat n =
     (if n < 10 then [''0123456789'' ! n]
      else str_nat (n div 10) @ [''0123456789'' ! (n mod 10)])"
  by pat_completeness auto
termination
  by (relation "measure id") auto

declare str_nat.simps [simp del]

definition str_int :: "int \<Rightarrow> string" where
  "str_int i = (if i < 0 then CHR ''-'' # str_nat (nat (- i)) else str_nat (nat i))"

section \<open>Bookings and availability (db_helpers.py)\<close>

text \<open>The filter \<^verbatim>\<open>Booking.status.in_(['confirmed', 'pending'])\<close>.\<close>

definition active_status :: "string \<Rightarrow> bool" where
  "active_status st = (st = ''confirmed'' \<or> st = ''pending'')"

definition check_hunter_has_booking_on_date ::
  "db \<Rightarrow> engine \<Rightarrow> int \<Rightarrow> string \<Rightarrow> (bool \<times> Booking option) \<times> db" where
  "check_hunter_has_booking_on_date s e hunter_id date =
     (let existing_booking =
            first_row e
              (filter (\<lambda>b. b_hunter_id b = hunter_id \<and> b_date b = date
                          \<and> active_status (b_status b)) (tbl_bookings s))
      in ((existing_booking \<noteq> None, existing_booking), s))"

text \<open>The commit of a new booking is refused: foreign keys to fields and users, integer range.\<close>

definition booking_refused :: "db \<Rightarrow> Booking \<Rightarrow> bool" where
  "booking_refused s b =
     (tbl_fields s (b_field_id b) = None \<or> b_hunter_id b \<notin> set (tbl_users s)
      \<or> \<not> int4 (b_num_hunters b))"

definition create_booking ::
  "db \<Rightarrow> engine \<Rightarrow> int \<Rightarrow> int \<Rightarrow> string \<Rightarrow> int \<Rightarrow> real \<Rightarrow> string \<Rightarrow> bool
     \<Rightarrow> (Booking option \<times> string) \<times> db" where
  "create_booking s e field_id hunter_id date num_hunters total_price payment_id admin_override =
     (let (has_booking, existing_booking) =
            fst (check_hunter_has_booking_on_date s e hunter_id date)
      in if \<not> admin_override \<and> has_booking then
           (let field_name =
                  (case existing_booking of
                     None \<Rightarrow> ''Unknown''
                   | Some eb \<Rightarrow>
                       (case tbl_fields s (b_field_id eb) of
                          None \<Rightarrow> ''Unknown''
                        | Some existing_field \<Rightarrow> f_name existing_field))
            in ((None,
                 ''Double booking prevented: You already have a booking on '' @ date
                   @ '' at '' @ field_name), s))
         else
           (let field = tbl_fields s field_id;
                initial_status =
                  (if (case field of None \<Rightarrow> False
                       | Some f \<Rightarrow> auto_approve_bookings f = Some True)
                   then ''confirmed'' else ''pending'');
                booking =
                  \<lparr>b_id = next_id (map b_id (tbl_bookings s)), b_field_id = field_id,
                   b_hunter_id = hunter_id, b_date = date, b_num_hunters = num_hunters,
                   b_total_price = total_price, b_status = initial_status,
                   b_payment_method = ''card'', b_payment_id = payment_id\<rparr>;
                override_msg = (if admin_override then '' (Admin Override)'' else '''')
            in if booking_refused s booking
               then ((None, ''Database error: '' @ error_text e), s)
               else ((Some booking, ''Booking created successfully'' @ override_msg),
                     s\<lparr>tbl_bookings := tbl_bookings s @ [booking]\<rparr>)))"

text \<open>The hunters already booked on a field and date: the query and the sum of \<^verbatim>\<open>check_availability\<close>.\<close>

definition bookings_on_date :: "db \<Rightarrow> int \<Rightarrow> string \<Rightarrow> Booking list" where
  "bookings_on_date s field_id date =
     filter (\<lambda>b. b_field_id b = field_id \<and> b_date b = date \<and> active_status (b_status b))
       (tbl_bookings s)"

definition total_hunters_booked :: "db \<Rightarrow> int \<Rightarrow> string \<Rightarrow> int" where
  "total_hunters_booked s field_id date =
     sum_list (map b_num_hunters (bookings_on_date s field_id date))"

definition check_availability ::
  "db \<Rightarrow> int \<Rightarrow> string \<Rightarrow> int \<Rightarrow> (bool \<times> string) \<times> db" where
  "check_availability s field_id date num_hunters =
     (case tbl_fields s field_id of
        None \<Rightarrow> ((False, ''Field not found''), s)
      | Some field \<Rightarrow>
          if date \<in> set (case blocked_dates field of None \<Rightarrow> [] | Some ds \<Rightarrow> ds)
          then ((False, ''Date is blocked by outfitter''), s)
          else if total_hunters_booked s field_id date + num_hunters > capacity field
          then ((False,
                 ''Insufficient capacity. Only ''
                   @ str_int (capacity field - total_hunters_booked s field_id date)
                   @ '' spots available''), s)
          else ((True, ''Available''), s))"

section \<open>Hunt sessions (db_helpers.py)\<close>

text \<open>The commit of a new session is refused: foreign keys to bookings, users and fields.\<close>

definition session_refused :: "db \<Rightarrow> HuntSession \<Rightarrow> bool" where
  "session_refused s h =
     (hs_booking_id h \<notin> b_id ` set (tbl_bookings s) \<or> hs_hunter_id h \<notin> set (tbl_users s)
      \<or> tbl_fields s (hs_field_id h) = None)"

definition create_hunt_session :: "db \<Rightarrow> int \<Rightarrow> int \<Rightarrow> int \<Rightarrow> HuntSession option \<times> db" where
  "create_hunt_session s booking_id hunter_id field_id =
     (let session =
            \<lparr>hs_id = next_id (map hs_id (tbl_hunt_sessions s)), hs_booking_id = booking_id,
             hs_hunter_id = hunter_id, hs_field_id = field_id, start_time = None,
             end_time = None, hs_status = ''not_started''\<rparr>
      in if session_refused s session then (None, s)
         else (Some session, s\<lparr>tbl_hunt_sessions := tbl_hunt_sessions s @ [session]\<rparr>))"

text \<open>The commit of a changed session object: the row with its id is replaced.\<close>

definition commit_session :: "db \<Rightarrow> HuntSession \<Rightarrow> db" where
  "commit_session s session =
     s\<lparr>tbl_hunt_sessions :=
         map (\<lambda>h. if hs_id h = hs_id session then session else h) (tbl_hunt_sessions s)\<rparr>"

text \<open>\<open>now\<close> is the value of \<^verbatim>\<open>datetime.utcnow()\<close> at the call.\<close>

definition start_hunt_session :: "db \<Rightarrow> int \<Rightarrow> int \<Rightarrow> HuntSession option \<times> db" where
  "start_hunt_session s session_id now =
     (case find (\<lambda>h. hs_id h = session_id) (tbl_hunt_sessions s) of
        None \<Rightarrow> (None, s)
      | Some session \<Rightarrow>
          (let session' = session\<lparr>start_time := Some now, hs_status := ''active''\<rparr>
           in (Some session', commit_session s session')))"

definition end_hunt_session :: "db \<Rightarrow> int \<Rightarrow> int \<Rightarrow> HuntSession option \<times> db" where
  "end_hunt_session s session_id now =
     (case find (\<lambda>h. hs_id h = session_id) (tbl_hunt_sessions s) of
        None \<Rightarrow> (None, s)
      | Some session \<Rightarrow>
          (let session' = session\<lparr>end_time := Some now, hs_status := ''completed''\<rparr>
           in (Some session', commit_session s session')))"

section \<open>Hunt reports and quota depletion (db_helpers.py)\<close>

text \<open>\<^verbatim>\<open>q.get('remaining', 0)\<close> and \<^verbatim>\<open>q.get('total', 0)\<close> on a quota dict.\<close>

definition get_remaining :: "quota \<Rightarrow> int" where
  "get_remaining q = (case q_remaining q of None \<Rightarrow> 0 | Some r \<Rightarrow> r)"

definition get_total :: "quota \<Rightarrow> int" where
  "get_total q = (case q_total q of None \<Rightarrow> 0 | Some t \<Rightarrow> t)"

text \<open>
  The inner loop of \<^verbatim>\<open>create_hunt_report\<close>: the first quota dict whose species equals the
  harvested name gets its remaining lowered, floored at 0, and the loop breaks.
\<close>

fun deplete_species :: "quota list \<Rightarrow> string \<Rightarrow> int \<Rightarrow> quota list" where
  "deplete_species [] species_name quantity = []"
| "deplete_species (quarry # rest) species_name quantity =
     (if q_species quarry = Some species_name
      then quarry\<lparr>q_remaining := Some (max 0 (get_remaining quarry - quantity))\<rparr> # rest
      else quarry # deplete_species rest species_name quantity)"

text \<open>\<^verbatim>\<open>harvested.get('species', harvested.get(' species', ''))\<close> and \<^verbatim>\<open>harvested.get('quantity', 0)\<close>.\<close>

definition harvested_name :: "harvested \<Rightarrow> string" where
  "harvested_name h =
     (case h_species h of
        Some n \<Rightarrow> n
      | None \<Rightarrow> (case h_blank_species h of Some n \<Rightarrow> n | None \<Rightarrow> []))"

definition harvested_quantity :: "harvested \<Rightarrow> int" where
  "harvested_quantity h = (case h_quantity h of None \<Rightarrow> 0 | Some k \<Rightarrow> k)"

text \<open>The outer loop over \<^verbatim>\<open>species_harvested\<close>.\<close>

fun deplete_all :: "quota list \<Rightarrow> harvested list \<Rightarrow> quota list" where
  "deplete_all quarry_list [] = quarry_list"
| "deplete_all quarry_list (h # hs) =
     deplete_all (deplete_species quarry_list (harvested_name h) (harvested_quantity h)) hs"

text \<open>The quota update of a diy-leased field; a list that is None or empty is falsy.\<close>

definition update_quarry :: "Field \<Rightarrow> int \<Rightarrow> harvested list \<Rightarrow> Field" where
  "update_quarry field animals_harvested species_harvested =
     (if field_type field = Some ''diy-leased'' then
        (case quarry_species field of
           Some (q # qs) \<Rightarrow>
             field\<lparr>quarry_species := Some (deplete_all (q # qs) species_harvested)\<rparr>
         | _ \<Rightarrow>
             (case quarry_remaining field of
                Some r \<Rightarrow> field\<lparr>quarry_remaining := Some (max 0 (r - animals_harvested))\<rparr>
              | None \<Rightarrow> field))
      else field)"

text \<open>
  \<^verbatim>\<open>report_data.get('animals_harvested', 0)\<close> and
  \<^verbatim>\<open>report_data.get('species_harvested', [])\<close>.
\<close>

definition get_animals_harvested :: "report_data \<Rightarrow> int" where
  "get_animals_harvested data = (case rd_animals_harvested data of None \<Rightarrow> 0 | Some a \<Rightarrow> a)"

definition get_species_harvested :: "report_data \<Rightarrow> harvested list" where
  "get_species_harvested data = (case rd_species_harvested data of None \<Rightarrow> [] | Some hs \<Rightarrow> hs)"

text \<open>
  The commit of a report and of the field it changed is refused: foreign keys of the report
  to sessions, fields and users, and the integer range of the report's counts and of the
  field's scalar quota.
\<close>

definition report_refused :: "db \<Rightarrow> HuntReport \<Rightarrow> Field option \<Rightarrow> bool" where
  "report_refused s r changed_field =
     (r_session_id r \<notin> hs_id ` set (tbl_hunt_sessions s)
      \<or> tbl_fields s (r_field_id r) = None
      \<or> r_hunter_id r \<notin> set (tbl_users s)
      \<or> \<not> int4 (r_animals_harvested r)
      \<or> (case r_review_rating r of None \<Rightarrow> False | Some n \<Rightarrow> \<not> int4 n)
      \<or> (case changed_field of
            None \<Rightarrow> False
          | Some f \<Rightarrow> (case quarry_remaining f of None \<Rightarrow> False | Some n \<Rightarrow> \<not> int4 n)))"

text \<open>
  \<open>today\<close> is \<^verbatim>\<open>datetime.now().strftime('%Y-%m-%d')\<close> at the call. The report and the
  field are written in one transaction: refused, the call returns nothing and the database
  is as it was.
\<close>

definition create_hunt_report ::
  "db \<Rightarrow> int \<Rightarrow> int \<Rightarrow> int \<Rightarrow> report_data \<Rightarrow> string \<Rightarrow> HuntReport option \<times> db" where
  "create_hunt_report s session_id field_id hunter_id data today =
     (let animals_harvested = get_animals_harvested data;
          species_harvested = get_species_harvested data;
          report =
            \<lparr>r_id = next_id (map r_id (tbl_hunt_reports s)), r_session_id = session_id,
             r_field_id = field_id, r_hunter_id = hunter_id,
             r_animals_harvested = animals_harvested,
             r_species_harvested = species_harvested,
             r_review_rating = rd_review_rating data\<rparr>;
          s1 = s\<lparr>tbl_hunt_reports := tbl_hunt_reports s @ [report]\<rparr>;
          changed_field =
            (case tbl_fields s field_id of
               None \<Rightarrow> None
             | Some field \<Rightarrow>
                 Some (update_quarry
                         (field\<lparr>last_visit_date := Some today,
                                last_visit_had_harvest := Some (animals_harvested > 0)\<rparr>)
                         animals_harvested species_harvested))
      in if report_refused s report changed_field then (None, s)
         else (case changed_field of
                 None \<Rightarrow> (Some report, s1)
               | Some field' \<Rightarrow>
                   (Some report, s1\<lparr>tbl_fields := (tbl_fields s)(field_id \<mapsto> field')\<rparr>)))"

section \<open>Animal tags (db_helpers.py)\<close>

text \<open>
  The commit of a new tag is refused: the unique index on the tag number, and the foreign
  keys to reports, users and fields.
\<close>

definition tag_refused :: "db \<Rightarrow> AnimalTag \<Rightarrow> bool" where
  "tag_refused s t =
     (tag_number t \<in> tag_number ` set (tbl_animal_tags s)
      \<or> t_hunt_report_id t \<notin> r_id ` set (tbl_hunt_reports s)
      \<or> t_hunter_id t \<notin> set (tbl_users s)
      \<or> tbl_fields s (t_field_id t) = None)"

text \<open>
  \<^verbatim>\<open>generate_unique_tag_number\<close> returns \<^verbatim>\<open>str(uuid.uuid4())\<close>, a random value: here it is
  the argument \<open>uuid\<close>, chosen by the environment at each call. \<open>qr_ok\<close> says whether
  \<^verbatim>\<open>generate_qr_code\<close> writes its image file, and \<open>photo_ok\<close> whether \<^verbatim>\<open>save_animal_photo\<close>
  reads the photo bytes as an image and writes them as a JPEG; when one of them raises, the
  call returns nothing, before anything is stored. The image files themselves are not part
  of the state; only their paths are. At most one stored tag carries a given number, so the
  lookup's \<^verbatim>\<open>.first()\<close> has no choice to make among the tags the helpers store.
\<close>

definition create_animal_tag ::
  "db \<Rightarrow> string \<Rightarrow> bool \<Rightarrow> bool \<Rightarrow> int \<Rightarrow> int \<Rightarrow> int \<Rightarrow> string \<Rightarrow> string
     \<Rightarrow> string option \<Rightarrow> string option \<Rightarrow> string option \<Rightarrow> string option
     \<Rightarrow> AnimalTag option \<times> db" where
  "create_animal_tag s uuid qr_ok photo_ok hunt_report_id hunter_id field_id species condition
       photo_bytes animal_tag disease_type notes =
     (let tag_number = uuid;
          qr_code_path = ''qr_codes/'' @ tag_number @ ''.png'';
          has_photo = (case photo_bytes of None \<Rightarrow> False | Some bs \<Rightarrow> bs \<noteq> []);
          photo_path =
            (if has_photo then Some (''animal_photos/'' @ tag_number @ ''.jpg'') else None);
          new_tag =
            \<lparr>t_id = next_id (map t_id (tbl_animal_tags s)), tag_number = tag_number,
             t_hunt_report_id = hunt_report_id, t_hunter_id = hunter_id, t_field_id = field_id,
             t_species = species, t_condition = condition, photo_path = photo_path,
             qr_code_path = qr_code_path, t_animal_tag = animal_tag,
             t_disease_type = disease_type, t_notes = notes\<rparr>
      in if \<not> qr_ok then (None, s)
         else if has_photo \<and> \<not> photo_ok then (None, s)
         else if tag_refused s new_tag then (None, s)
         else (Some new_tag, s\<lparr>tbl_animal_tags := tbl_animal_tags s @ [new_tag]\<rparr>))"

definition get_animal_tag_by_tag_number :: "db \<Rightarrow> string \<Rightarrow> AnimalTag option \<times> db" where
  "get_animal_tag_by_tag_number s number =
     (find (\<lambda>t. tag_number t = number) (tbl_animal_tags s), s)"

section \<open>The callers in app.py\<close>

text \<open>
  The hunter's page offers the start button only for a session whose status is
  \<^verbatim>\<open>not_started\<close> (app.py 1113-1115), and the finish button, which opens the report
  form, only for one whose status is \<^verbatim>\<open>active\<close> (app.py 1125-1128, 1168); submitting the
  form calls \<^verbatim>\<open>create_hunt_report\<close> and then \<^verbatim>\<open>end_hunt_session\<close> (app.py 1929-1930,
  in \<^verbatim>\<open>show_hunt_report_form\<close>), without looking at what the first call returned. A
  button that is not offered leaves the database as it is. Opening the form and submitting
  it are taken as one action.
\<close>

definition session_status :: "db \<Rightarrow> int \<Rightarrow> string option" where
  "session_status s session_id =
     map_option hs_status (find (\<lambda>h. hs_id h = session_id) (tbl_hunt_sessions s))"

definition submit_hunt_report ::
  "db \<Rightarrow> int \<Rightarrow> int \<Rightarrow> int \<Rightarrow> report_data \<Rightarrow> string \<Rightarrow> int \<Rightarrow> db" where
  "submit_hunt_report s session_id field_id hunter_id data today now =
     (let s1 = snd (create_hunt_report s session_id field_id hunter_id data today)
      in snd (end_hunt_session s1 session_id now))"

datatype page_action =
  StartDay int
| FinishHunt int int report_data string int

fun page_step :: "db \<Rightarrow> int \<Rightarrow> page_action \<Rightarrow> db" where
  "page_step s session_id (StartDay now) =
     (if session_status s session_id = Some ''not_started''
      then snd (start_hunt_session s session_id now) else s)"
| "page_step s session_id (FinishHunt field_id hunter_id data today now) =
     (if session_status s session_id = Some ''active''
      then submit_hunt_report s session_id field_id hunter_id data today now else s)"

text \<open>The statuses a session shows before and after each action of a run.\<close>

fun page_statuses :: "db \<Rightarrow> int \<Rightarrow> page_action list \<Rightarrow> string option list" where
  "page_statuses s session_id [] = [session_status s session_id]"
| "page_statuses s session_id (a # as) =
     session_status s session_id # page_statuses (page_step s session_id a) session_id as"

text \<open>The same for direct calls of the two helpers, which test nothing.\<close>

datatype session_call = Start int | End int

fun call_step :: "db \<Rightarrow> int \<Rightarrow> session_call \<Rightarrow> db" where
  "call_step s session_id (Start now) = snd (start_hunt_session s session_id now)"
| "call_step s session_id (End now) = snd (end_hunt_session s session_id now)"

fun call_statuses :: "db \<Rightarrow> int \<Rightarrow> session_call list \<Rightarrow> string option list" where
  "call_statuses s session_id [] = [session_status s session_id]"
| "call_statuses s session_id (c # cs) =
     session_status s session_id # call_statuses (call_step s session_id c) session_id cs"

section \<open>Runs of calls\<close>

text \<open>
  A run of \<^verbatim>\<open>create_booking\<close> calls without admin override, each request giving what the
  engine decides at that call, and the field, hunter, date, number of hunters, price and
  payment id.
\<close>

type_synonym booking_request = "engine \<times> int \<times> int \<times> string \<times> int \<times> real \<times> string"

fun run_bookings :: "db \<Rightarrow> booking_request list \<Rightarrow> db" where
  "run_bookings s [] = s"
| "run_bookings s ((e, field_id, hunter_id, date, num_hunters, total_price, payment_id) # rs) =
     run_bookings
       (snd (create_booking s e field_id hunter_id date num_hunters total_price payment_id False))
       rs"

text \<open>
  A run of \<^verbatim>\<open>create_animal_tag\<close> calls: the arguments of each call, the tags the calls
  returned, in order, and the database after the last call.
\<close>

record tag_call =
  c_uuid :: string
  c_qr_ok :: bool
  c_photo_ok :: bool
  c_hunt_report_id :: int
  c_hunter_id :: int
  c_field_id :: int
  c_species :: string
  c_condition :: string
  c_photo_bytes :: "string option"
  c_animal_tag :: "string option"
  c_disease_type :: "string option"
  c_notes :: "string option"

definition call_create_animal_tag :: "db \<Rightarrow> tag_call \<Rightarrow> AnimalTag option \<times> db" where
  "call_create_animal_tag s c =
     create_animal_tag s (c_uuid c) (c_qr_ok c) (c_photo_ok c) (c_hunt_report_id c)
       (c_hunter_id c) (c_field_id c) (c_species c) (c_condition c) (c_photo_bytes c)
       (c_animal_tag c) (c_disease_type c) (c_notes c)"

fun run_tags :: "db \<Rightarrow> tag_call list \<Rightarrow> AnimalTag list \<times> db" where
  "run_tags s [] = ([], s)"
| "run_tags s (c # cs) =
     (case call_create_animal_tag s c of
        (None, s1) \<Rightarrow> run_tags s1 cs
      | (Some t, s1) \<Rightarrow> (t # fst (run_tags s1 cs), snd (run_tags s1 cs)))"

section \<open>Properties of states\<close>

text \<open>The pending and confirmed bookings of a hunter on a date, on any field.\<close>

definition hunter_bookings_on :: "db \<Rightarrow> int \<Rightarrow> string \<Rightarrow> Booking list" where
  "hunter_bookings_on s hunter_id date =
     filter (\<lambda>b. b_hunter_id b = hunter_id \<and> b_date b = date
                \<and> (b_status b = ''pending'' \<or> b_status b = ''confirmed'')) (tbl_bookings s)"

text \<open>The foreign key of bookings to fields holds: every booking's field has a row.\<close>

definition bookings_have_fields :: "db \<Rightarrow> bool" where
  "bookings_have_fields s = list_all (\<lambda>b. tbl_fields s (b_field_id b) \<noteq> None) (tbl_bookings s)"

text \<open>
  \<open>0 \<le> remaining \<le> total\<close> for one quota dict, read with the defaults the quota helpers
  use.
\<close>

definition quota_ok :: "quota \<Rightarrow> bool" where
  "quota_ok q = (0 \<le> get_remaining q \<and> get_remaining q \<le> get_total q)"

section \<open>Example states\<close>

definition engine0 :: engine where
  "engine0 = \<lparr>row_choice = 0, error_text = ''IntegrityError''\<rparr>"

definition field_a :: Field where
  "field_a =
     \<lparr>f_name = ''Field A'', capacity = 2, blocked_dates = Some [''2025-12-25''],
      field_type = Some ''subsidised'', quarry_total = None, quarry_remaining = None,
      quarry_species = None, auto_approve_bookings = Some False, last_visit_date = None,
      last_visit_had_harvest = None\<rparr>"

definition booking_a :: Booking where
  "booking_a =
     \<lparr>b_id = 1, b_field_id = 1, b_hunter_id = 7, b_date = ''2025-10-20'',
      b_num_hunters = 2, b_total_price = 0, b_status = ''pending'',
      b_payment_method = ''card'', b_payment_id = ''pm_1''\<rparr>"

definition db_one_field :: db where
  "db_one_field =
     \<lparr>tbl_users = [7, 8], tbl_fields = [1 \<mapsto> field_a], tbl_bookings = [],
      tbl_hunt_sessions = [], tbl_hunt_reports = [], tbl_animal_tags = []\<rparr>"

definition db_a :: db where
  "db_a = db_one_field\<lparr>tbl_bookings := [booking_a]\<rparr>"

definition db_session :: db where
  "db_session = snd (create_hunt_session db_a 1 7 1)"

definition red_deer :: quota where
  "red_deer = \<lparr>q_species = Some ''Red Deer'', q_total = Some 10, q_remaining = Some 10\<rparr>"

definition fox :: quota where
  "fox = \<lparr>q_species = Some ''Fox'', q_total = Some 5, q_remaining = Some 5\<rparr>"

definition field_diy :: Field where
  "field_diy =
     \<lparr>f_name = ''Glen'', capacity = 2, blocked_dates = None,
      field_type = Some ''diy-leased'', quarry_total = None, quarry_remaining = None,
      quarry_species = Some [red_deer, fox], auto_approve_bookings = Some True,
      last_visit_date = None, last_visit_had_harvest = None\<rparr>"

definition field_scalar :: Field where
  "field_scalar =
     \<lparr>f_name = ''Moor'', capacity = 2, blocked_dates = None,
      field_type = Some ''diy-leased'', quarry_total = Some 10, quarry_remaining = Some 4,
      quarry_species = None, auto_approve_bookings = Some True,
      last_visit_date = None, last_visit_had_harvest = None\<rparr>"

text \<open>
  Three fields, and hunter 7 with a started session on each of them: the bookings and
  sessions are made by the helpers themselves.
\<close>

definition db_fields :: db where
  "db_fields =
     \<lparr>tbl_users = [7, 8],
      tbl_fields = [1 \<mapsto> field_a, 2 \<mapsto> field_diy, 3 \<mapsto> field_scalar],
      tbl_bookings = [], tbl_hunt_sessions = [], tbl_hunt_reports = [],
      tbl_animal_tags = []\<rparr>"

definition db_booked :: db where
  "db_booked =
     run_bookings db_fields
       [(engine0, 1, 7, ''2025-10-19'', 1, 0, ''FREE_1''),
        (engine0, 2, 7, ''2025-10-20'', 1, 0, ''FREE_2''),
        (engine0, 3, 7, ''2025-10-21'', 1, 0, ''FREE_3'')]"

definition db_diy :: db where
  "db_diy =
     snd (start_hunt_session (snd (create_hunt_session
       (snd (start_hunt_session (snd (create_hunt_session
          (snd (start_hunt_session (snd (create_hunt_session db_booked 1 7 1)) 1 10))
          2 7 2)) 2 10))
       3 7 3)) 3 10)"

definition harvest :: "string \<Rightarrow> int \<Rightarrow> harvested" where
  "harvest species quantity =
     \<lparr>h_species = Some species, h_blank_species = None, h_quantity = Some quantity\<rparr>"

definition report_of :: "int \<Rightarrow> harvested list \<Rightarrow> report_data" where
  "report_of animals entries =
     \<lparr>rd_animals_harvested = Some animals, rd_species_harvested = Some entries,
      rd_review_rating = None\<rparr>"

definition empty_report :: report_data where
  "empty_report = report_of 0 []"

definition tag_call_of :: "string \<Rightarrow> tag_call" where
  "tag_call_of uuid =
     \<lparr>c_uuid = uuid, c_qr_ok = True, c_photo_ok = True, c_hunt_report_id = 1,
      c_hunter_id = 7, c_field_id = 2, c_species = ''Red Deer'', c_condition = ''Good'', c_photo_bytes = Some ''jpeg'',
      c_animal_tag = None, c_disease_type = None, c_notes = None\<rparr>"

text \<open>The state after a report of three red deer on the second field.\<close>

definition db_reported :: db where
  "db_reported =
     snd (create_hunt_report db_diy 2 2 7 (report_of 3 [harvest ''Red Deer'' 3]) ''2025-10-20'')"

section \<open>The example states, evaluated\<close>

lemmas eval_booking =
  db_a_def booking_a_def field_a_def db_one_field_def engine0_def
  create_booking_def check_hunter_has_booking_on_date_def first_row_def booking_refused_def
  int4_def active_status_def next_id_def Let_def
  hunter_bookings_on_def total_hunters_booked_def bookings_on_date_def check_availability_def

lemmas eval_session =
  db_session_def create_hunt_session_def session_refused_def start_hunt_session_def
  end_hunt_session_def commit_session_def session_status_def submit_hunt_report_def
  create_hunt_report_def report_refused_def

lemmas eval_report =
  db_fields_def field_diy_def field_scalar_def red_deer_def fox_def
  harvest_def report_of_def empty_report_def update_quarry_def
  get_animals_harvested_def get_species_harvested_def harvested_name_def
  harvested_quantity_def get_remaining_def get_total_def

lemma db_a_reached:
  "db_a = snd (create_booking db_one_field engine0 1 7 ''2025-10-20'' 2 0 ''pm_1'' False)"
  by (simp add: eval_booking)

lemma db_booked_eval:
  "db_booked = db_fields\<lparr>tbl_bookings :=
     [\<lparr>b_id = 1, b_field_id = 1, b_hunter_id = 7, b_date = ''2025-10-19'', b_num_hunters = 1,
       b_total_price = 0, b_status = ''pending'', b_payment_method = ''card'',
       b_payment_id = ''FREE_1''\<rparr>,
      \<lparr>b_id = 2, b_field_id = 2, b_hunter_id = 7, b_date = ''2025-10-20'', b_num_hunters = 1,
       b_total_price = 0, b_status = ''confirmed'', b_payment_method = ''card'',
       b_payment_id = ''FREE_2''\<rparr>,
      \<lparr>b_id = 3, b_field_id = 3, b_hunter_id = 7, b_date = ''2025-10-21'', b_num_hunters = 1,
       b_total_price = 0, b_status = ''confirmed'', b_payment_method = ''card'',
       b_payment_id = ''FREE_3''\<rparr>]\<rparr>"
  by (simp add: db_booked_def eval_booking eval_report)

lemma db_diy_eval:
  "db_diy = db_booked\<lparr>tbl_hunt_sessions :=
     [\<lparr>hs_id = 1, hs_booking_id = 1, hs_hunter_id = 7, hs_field_id = 1, start_time = Some 10,
       end_time = None, hs_status = ''active''\<rparr>,
      \<lparr>hs_id = 2, hs_booking_id = 2, hs_hunter_id = 7, hs_field_id = 2, start_time = Some 10,
       end_time = None, hs_status = ''active''\<rparr>,
      \<lparr>hs_id = 3, hs_booking_id = 3, hs_hunter_id = 7, hs_field_id = 3, start_time = Some 10,
       end_time = None, hs_status = ''active''\<rparr>]\<rparr>"
  by (simp add: db_diy_def db_booked_eval eval_session eval_report next_id_def Let_def)

section \<open>Availability\<close>

text \<open>
  C5. \<^verbatim>\<open>check_availability\<close> applies its rules in order and the first failure wins: an
  unknown field id gives (False, "Field not found"); otherwise a date among the field's
  blocked dates gives (False, "Date is blocked by outfitter"); otherwise, with \<open>booked\<close> the
  sum of \<open>num_hunters\<close> over the pending and confirmed bookings of that field and date,
  \<open>booked + num_hunters > capacity\<close> gives (False, "Insufficient capacity. Only
  \<open>capacity - booked\<close> spots available"); otherwise (True, "Available"). In every case the
  database is returned as it was.
\<close>

theorem check_availability_rules:
  "(tbl_fields s field_id = None \<longrightarrow>
      check_availability s field_id date num_hunters = ((False, ''Field not found''), s))
   \<and> (\<forall>f booked. tbl_fields s field_id = Some f
        \<and> booked = (\<Sum>b\<leftarrow>filter (\<lambda>b. b_field_id b = field_id \<and> b_date b = date
                         \<and> (b_status b = ''pending'' \<or> b_status b = ''confirmed'')) (tbl_bookings s).
                       b_num_hunters b) \<longrightarrow>
        check_availability s field_id date num_hunters =
          (if \<exists>ds. blocked_dates f = Some ds \<and> date \<in> set ds
             then ((False, ''Date is blocked by outfitter''), s)
           else if booked + num_hunters > capacity f
             then ((False, ''Insufficient capacity. Only '' @ str_int (capacity f - booked)
                       @ '' spots available''), s)
           else ((True, ''Available''), s)))"
proof -
  have eq: "(\<lambda>b. b_field_id b = field_id \<and> b_date b = date
                         \<and> (b_status b = ''pending'' \<or> b_status b = ''confirmed''))
    = (\<lambda>b. b_field_id b = field_id \<and> b_date b = date \<and> active_status (b_status b))"
    by (auto simp: active_status_def)
  show ?thesis
    unfolding check_availability_def total_hunters_booked_def bookings_on_date_def eq
    by (auto split: option.splits)
qed

text \<open>
  The four outcomes on a field of capacity 2 that has one pending booking for two hunters
  on 2025-10-20 and is blocked on 2025-12-25.
\<close>

theorem check_availability_rules_witness:
  "check_availability db_a 2 ''2025-10-20'' 1 = ((False, ''Field not found''), db_a)
   \<and> check_availability db_a 1 ''2025-12-25'' 1 = ((False, ''Date is blocked by outfitter''), db_a)
   \<and> check_availability db_a 1 ''2025-10-20'' 1 =
        ((False, ''Insufficient capacity. Only 0 spots available''), db_a)
   \<and> check_availability db_a 1 ''2025-10-21'' 2 = ((True, ''Available''), db_a)"
  using check_availability_rules [of db_a 2 "''2025-10-20''" 1]
    check_availability_rules [of db_a 1 "''2025-12-25''" 1]
    check_availability_rules [of db_a 1 "''2025-10-20''" 1]
    check_availability_rules [of db_a 1 "''2025-10-21''" 2]
  by (simp add: db_a_def db_one_field_def field_a_def booking_a_def str_int_def str_nat.simps)

section \<open>Creating bookings\<close>

lemma active_status_iff: "active_status st \<longleftrightarrow> st = ''pending'' \<or> st = ''confirmed''"
  by (auto simp: active_status_def)

lemma first_row_None [simp]: "first_row e rows = None \<longleftrightarrow> rows = []"
  by (simp add: first_row_def)

lemma first_row_Some: "first_row e rows = Some x \<Longrightarrow> x \<in> set rows"
  by (auto simp: first_row_def split: if_splits)

lemma hunter_filter_eq:
  "filter (\<lambda>b. b_hunter_id b = H \<and> b_date b = D \<and> active_status (b_status b)) (tbl_bookings s)
     = hunter_bookings_on s H D"
  by (simp add: hunter_bookings_on_def active_status_iff)

lemma create_booking_refused:
  assumes "first_row e (hunter_bookings_on s H D) = Some eb"
  shows "create_booking s e fid H D n p pid False =
           ((None, ''Double booking prevented: You already have a booking on '' @ D @ '' at ''
               @ (case tbl_fields s (b_field_id eb) of None \<Rightarrow> ''Unknown''
                  | Some f \<Rightarrow> f_name f)), s)"
  using assms
  by (simp add: create_booking_def check_hunter_has_booking_on_date_def hunter_filter_eq)

lemma create_booking_engine_refuses:
  assumes "ao \<or> hunter_bookings_on s H D = []"
    and "tbl_fields s fid = None \<or> H \<notin> set (tbl_users s) \<or> \<not> int4 n"
  shows "create_booking s e fid H D n p pid ao = ((None, ''Database error: '' @ error_text e), s)"
  using assms
  by (auto simp: create_booking_def check_hunter_has_booking_on_date_def hunter_filter_eq
      booking_refused_def Let_def)

lemma create_booking_accepted:
  assumes "ao \<or> hunter_bookings_on s H D = []"
    and "tbl_fields s fid \<noteq> None" "H \<in> set (tbl_users s)" "int4 n"
  shows "\<exists>b msg. create_booking s e fid H D n p pid ao =
           ((Some b, msg), s\<lparr>tbl_bookings := tbl_bookings s @ [b]\<rparr>)
         \<and> msg = ''Booking created successfully'' @ (if ao then '' (Admin Override)'' else [])
         \<and> b_field_id b = fid \<and> b_hunter_id b = H \<and> b_date b = D \<and> b_num_hunters b = n
         \<and> b_status b = (if \<exists>f. tbl_fields s fid = Some f \<and> auto_approve_bookings f = Some True
                          then ''confirmed'' else ''pending'')"
  using assms
  by (auto simp: create_booking_def check_hunter_has_booking_on_date_def hunter_filter_eq
      booking_refused_def Let_def split: option.splits)

lemma create_booking_cases:
  "snd (create_booking s e fid H D n p pid ao) = s
   \<or> (\<exists>b. snd (create_booking s e fid H D n p pid ao) = s\<lparr>tbl_bookings := tbl_bookings s @ [b]\<rparr>
        \<and> b_field_id b = fid \<and> b_hunter_id b = H \<and> b_date b = D \<and> b_num_hunters b = n
        \<and> tbl_fields s fid \<noteq> None \<and> (ao \<or> hunter_bookings_on s H D = []))"
proof (cases "ao \<or> hunter_bookings_on s H D = []")
  case False
  then obtain eb where "first_row e (hunter_bookings_on s H D) = Some eb" "\<not> ao"
    by (cases "first_row e (hunter_bookings_on s H D)") auto
  then show ?thesis by (simp add: create_booking_refused)
next
  case True
  show ?thesis
  proof (cases "tbl_fields s fid = None \<or> H \<notin> set (tbl_users s) \<or> \<not> int4 n")
    case True
    with \<open>ao \<or> hunter_bookings_on s H D = []\<close> show ?thesis
      by (simp add: create_booking_engine_refuses)
  next
    case False
    with create_booking_accepted [OF True, of fid n e p pid] True show ?thesis
      by auto
  qed
qed

lemma create_booking_keeps_single:
  assumes "length (hunter_bookings_on s H D) \<le> 1"
  shows "length (hunter_bookings_on
           (snd (create_booking s e fid hid d n p pid False)) H D) \<le> 1"
proof -
  from create_booking_cases [of s e fid hid d n p pid False]
  consider (same) "snd (create_booking s e fid hid d n p pid False) = s"
    | (added) b where "snd (create_booking s e fid hid d n p pid False)
          = s\<lparr>tbl_bookings := tbl_bookings s @ [b]\<rparr>"
        "b_hunter_id b = hid" "b_date b = d" "hunter_bookings_on s hid d = []"
    by auto
  then show ?thesis
  proof cases
    case same
    with assms show ?thesis by simp
  next
    case added
    show ?thesis
    proof (cases "hid = H \<and> d = D")
      case True
      with added have "hunter_bookings_on s H D = []" by simp
      then show ?thesis using added by (simp add: hunter_bookings_on_def)
    next
      case False
      then show ?thesis using added assms by (auto simp: hunter_bookings_on_def)
    qed
  qed
qed

lemma create_booking_keeps_fields:
  assumes "bookings_have_fields s"
  shows "bookings_have_fields (snd (create_booking s e fid hid d n p pid ao))"
  using create_booking_cases [of s e fid hid d n p pid ao] assms
  by (auto simp: bookings_have_fields_def)

lemma run_bookings_keeps_single:
  "length (hunter_bookings_on s H D) \<le> 1 \<Longrightarrow>
   length (hunter_bookings_on (run_bookings s reqs) H D) \<le> 1"
proof (induction reqs arbitrary: s)
  case Nil
  then show ?case by simp
next
  case (Cons r reqs)
  obtain e fid hid d n p pid where r: "r = (e, fid, hid, d, n, p, pid)"
    by (cases r) auto
  show ?case
    unfolding r run_bookings.simps
    by (rule Cons.IH) (rule create_booking_keeps_single [OF Cons.prems])
qed

lemma run_bookings_keeps_fields:
  "bookings_have_fields s \<Longrightarrow> bookings_have_fields (run_bookings s reqs)"
proof (induction reqs arbitrary: s)
  case Nil
  then show ?case by simp
next
  case (Cons r reqs)
  obtain e fid hid d n p pid where r: "r = (e, fid, hid, d, n, p, pid)"
    by (cases r) auto
  show ?case
    unfolding r run_bookings.simps
    by (rule Cons.IH) (rule create_booking_keeps_fields [OF Cons.prems])
qed

text \<open>
  C1. In a state where every booking's field has a row (the foreign key of bookings, which
  every \<^verbatim>\<open>create_booking\<close> call keeps), when \<^verbatim>\<open>create_booking\<close> is called without admin
  override while hunter \<open>H\<close> already has a pending or confirmed booking on date \<open>D\<close>, on
  any field, it returns no booking and the database as it was, and its message is "Double
  booking prevented: You already have a booking on \<open>D\<close> at " followed by the name of the
  field of such a conflicting booking. Hence a run of \<^verbatim>\<open>create_booking\<close> calls without
  admin override, from a state where \<open>H\<close> has at most one pending or confirmed booking on
  \<open>D\<close>, ends in such a state.
\<close>

theorem create_booking_double_booking:
  "(bookings_have_fields s
      \<and> (\<exists>b \<in> set (tbl_bookings s). b_hunter_id b = H \<and> b_date b = D
            \<and> (b_status b = ''pending'' \<or> b_status b = ''confirmed'')) \<longrightarrow>
      (\<exists>eb \<in> set (tbl_bookings s). \<exists>f. b_hunter_id eb = H \<and> b_date eb = D
        \<and> (b_status eb = ''pending'' \<or> b_status eb = ''confirmed'')
        \<and> tbl_fields s (b_field_id eb) = Some f
        \<and> create_booking s e field_id H D num_hunters total_price payment_id False =
            ((None,
              ''Double booking prevented: You already have a booking on '' @ D @ '' at ''
                @ f_name f), s)))
   \<and> (length (hunter_bookings_on s H D) \<le> 1 \<longrightarrow>
        length (hunter_bookings_on (run_bookings s reqs) H D) \<le> 1)
   \<and> (bookings_have_fields s \<longrightarrow> bookings_have_fields (run_bookings s reqs))"
proof (intro conjI impI)
  assume a: "bookings_have_fields s
      \<and> (\<exists>b \<in> set (tbl_bookings s). b_hunter_id b = H \<and> b_date b = D
            \<and> (b_status b = ''pending'' \<or> b_status b = ''confirmed''))"
  then have "hunter_bookings_on s H D \<noteq> []"
    by (auto simp: hunter_bookings_on_def filter_empty_conv)
  then obtain eb where eb: "first_row e (hunter_bookings_on s H D) = Some eb"
    by (cases "first_row e (hunter_bookings_on s H D)") auto
  from first_row_Some [OF eb]
  have in_s: "eb \<in> set (tbl_bookings s)" and c: "b_hunter_id eb = H" "b_date eb = D"
      "b_status eb = ''pending'' \<or> b_status eb = ''confirmed''"
    by (auto simp: hunter_bookings_on_def)
  from a in_s obtain f where f: "tbl_fields s (b_field_id eb) = Some f"
    by (auto simp: bookings_have_fields_def list_all_iff)
  from create_booking_refused [OF eb, of field_id num_hunters total_price payment_id] f
  have "create_booking s e field_id H D num_hunters total_price payment_id False =
            ((None,
              ''Double booking prevented: You already have a booking on '' @ D @ '' at ''
                @ f_name f), s)"
    by simp
  with in_s c f
  show "\<exists>eb \<in> set (tbl_bookings s). \<exists>f. b_hunter_id eb = H \<and> b_date eb = D
        \<and> (b_status eb = ''pending'' \<or> b_status eb = ''confirmed'')
        \<and> tbl_fields s (b_field_id eb) = Some f
        \<and> create_booking s e field_id H D num_hunters total_price payment_id False =
            ((None,
              ''Double booking prevented: You already have a booking on '' @ D @ '' at ''
                @ f_name f), s)"
    by blast
next
  assume "length (hunter_bookings_on s H D) \<le> 1"
  then show "length (hunter_bookings_on (run_bookings s reqs) H D) \<le> 1"
    by (rule run_bookings_keeps_single)
next
  assume "bookings_have_fields s"
  then show "bookings_have_fields (run_bookings s reqs)"
    by (rule run_bookings_keeps_fields)
qed

text \<open>
  Hunter 7 holds a pending booking on Field A for 2025-10-20: a second request for that day
  is refused with the field's name, and a run of two more requests leaves one booking.
\<close>

theorem create_booking_double_booking_witness:
  "bookings_have_fields db_a
   \<and> create_booking db_a engine0 1 7 ''2025-10-20'' 1 0 ''pm_2'' False =
     ((None, ''Double booking prevented: You already have a booking on 2025-10-20 at Field A''),
      db_a)
   \<and> length (hunter_bookings_on db_a 7 ''2025-10-20'') = 1
   \<and> length (hunter_bookings_on
         (run_bookings db_a
            [(engine0, 1, 7, ''2025-10-20'', 1, 0, ''pm_2''),
             (engine0, 1, 7, ''2025-10-21'', 1, 0, ''pm_3'')])
         7 ''2025-10-20'') \<le> 1
   \<and> bookings_have_fields
        (run_bookings db_a
            [(engine0, 1, 7, ''2025-10-20'', 1, 0, ''pm_2''),
             (engine0, 1, 7, ''2025-10-21'', 1, 0, ''pm_3'')])"
  using create_booking_double_booking [of db_a 7 "''2025-10-20''" engine0 1 1 0 "''pm_2''"
      "[(engine0, 1, 7, ''2025-10-20'', 1, 0, ''pm_2''),
        (engine0, 1, 7, ''2025-10-21'', 1, 0, ''pm_3'')]"]
  by (simp add: eval_booking bookings_have_fields_def)

text \<open>
  C9, amended. When no field has the given id and the hunter has no pending or confirmed
  booking on the date, \<^verbatim>\<open>create_booking\<close> without admin override makes no check of its own
  for the missing field: it takes the status as pending and tries the insert, which the
  database refuses (the foreign key of the booking's field). The call returns no booking
  and the message "Database error: " followed by the exception's text, and stores nothing.
\<close>

theorem create_booking_missing_field:
  assumes "tbl_fields s field_id = None"
    and "\<not> (\<exists>b \<in> set (tbl_bookings s). b_hunter_id b = hunter_id \<and> b_date b = date
            \<and> (b_status b = ''pending'' \<or> b_status b = ''confirmed''))"
  shows "create_booking s e field_id hunter_id date num_hunters total_price payment_id False
            = ((None, ''Database error: '' @ error_text e), s)"
proof -
  from assms(2) have "hunter_bookings_on s hunter_id date = []"
    by (auto simp: hunter_bookings_on_def filter_empty_conv)
  with assms(1) show ?thesis
    by (simp add: create_booking_engine_refuses)
qed

text \<open>
  Hunter 7 asks for field 5, which has no row, in a database without bookings.
\<close>

theorem create_booking_missing_field_witness:
  "tbl_fields db_one_field 5 = None
   \<and> tbl_bookings db_one_field = []
   \<and> create_booking db_one_field engine0 5 7 ''2025-10-22'' 2 0 ''pm_5'' False
       = ((None, ''Database error: IntegrityError''), db_one_field)"
  using create_booking_missing_field [of db_one_field 5 7 "''2025-10-22''" engine0 2 0 "''pm_5''"]
  by (simp add: db_one_field_def engine0_def)

text \<open>
  C9 as first stated fails: hunter 8, free on 2025-10-20, asks for field 2, which has no
  row; no booking is returned, the message is the database error, and the bookings are as
  before.
\<close>

theorem create_booking_missing_field_counterexample:
  "tbl_fields db_a 2 = None
   \<and> hunter_bookings_on db_a 8 ''2025-10-20'' = []
   \<and> fst (fst (create_booking db_a engine0 2 8 ''2025-10-20'' 1 0 ''pm_2'' False)) = None
   \<and> snd (fst (create_booking db_a engine0 2 8 ''2025-10-20'' 1 0 ''pm_2'' False))
       = ''Database error: IntegrityError''
   \<and> tbl_bookings (snd (create_booking db_a engine0 2 8 ''2025-10-20'' 1 0 ''pm_2'' False))
       = [booking_a]"
  by (simp add: eval_booking)

lemma total_hunters_booked_append:
  "total_hunters_booked (s\<lparr>tbl_bookings := tbl_bookings s @ [b]\<rparr>) F D =
     total_hunters_booked s F D
       + (if b_field_id b = F \<and> b_date b = D \<and> active_status (b_status b)
          then b_num_hunters b else 0)"
  by (simp add: total_hunters_booked_def bookings_on_date_def)

text \<open>
  C2, amended. \<^verbatim>\<open>create_booking\<close> makes no capacity check of its own. When
  \<^verbatim>\<open>check_availability\<close> accepts a field, date and number of hunters in a state where, for
  every field and date, the hunters of the pending and confirmed bookings sum to at most
  the field's capacity, then that holds again after \<^verbatim>\<open>create_booking\<close> with the same field,
  date and number, with or without admin override.
\<close>

theorem create_booking_after_check_within_capacity:
  assumes ok: "fst (fst (check_availability s field_id date num_hunters))"
    and inv: "\<forall>fid f d. tbl_fields s fid = Some f \<longrightarrow> total_hunters_booked s fid d \<le> capacity f"
    and fld: "tbl_fields
               (snd (create_booking s e field_id hunter_id date num_hunters total_price payment_id
                  admin_override)) F = Some f"
  shows "total_hunters_booked
           (snd (create_booking s e field_id hunter_id date num_hunters total_price payment_id
              admin_override)) F D \<le> capacity f"
proof -
  from create_booking_cases [of s e field_id hunter_id date num_hunters total_price payment_id
      admin_override]
  consider (same) "snd (create_booking s e field_id hunter_id date num_hunters total_price
        payment_id admin_override) = s"
    | (added) b where "snd (create_booking s e field_id hunter_id date num_hunters total_price
        payment_id admin_override) = s\<lparr>tbl_bookings := tbl_bookings s @ [b]\<rparr>"
      "b_field_id b = field_id" "b_date b = date" "b_num_hunters b = num_hunters"
    by auto
  then show ?thesis
  proof cases
    case same
    with inv fld show ?thesis by simp
  next
    case added
    from fld added have f: "tbl_fields s F = Some f" by simp
    show ?thesis
    proof (cases "F = field_id \<and> D = date")
      case True
      with ok f have "total_hunters_booked s field_id date + num_hunters \<le> capacity f"
        by (auto simp: check_availability_def split: option.splits if_splits)
      with True added show ?thesis
        using inv f by (auto simp: total_hunters_booked_append)
    next
      case False
      with added inv f show ?thesis by (auto simp: total_hunters_booked_append)
    qed
  qed
qed

text \<open>
  Field A (capacity 2) is free on 2025-10-21: the check accepts two hunters and the booking
  then made fills the day exactly.
\<close>

theorem create_booking_after_check_within_capacity_witness:
  "fst (fst (check_availability db_a 1 ''2025-10-21'' 2))
   \<and> tbl_fields (snd (create_booking db_a engine0 1 8 ''2025-10-21'' 2 0 ''pm_2'' False)) 1
       = Some field_a
   \<and> map b_num_hunters
       (tbl_bookings (snd (create_booking db_a engine0 1 8 ''2025-10-21'' 2 0 ''pm_2'' False)))
       = [2, 2]
   \<and> total_hunters_booked (snd (create_booking db_a engine0 1 8 ''2025-10-21'' 2 0 ''pm_2'' False))
        1 ''2025-10-21'' \<le> capacity field_a"
proof -
  have ok: "fst (fst (check_availability db_a 1 ''2025-10-21'' 2))"
    by (simp add: eval_booking)
  have inv: "\<forall>fid f d. tbl_fields db_a fid = Some f \<longrightarrow> total_hunters_booked db_a fid d \<le> capacity f"
    by (auto simp: db_a_def db_one_field_def field_a_def booking_a_def total_hunters_booked_def
        bookings_on_date_def split: if_splits)
  have fld: "tbl_fields (snd (create_booking db_a engine0 1 8 ''2025-10-21'' 2 0 ''pm_2'' False)) 1
      = Some field_a"
    by (simp add: eval_booking)
  have made: "map b_num_hunters
       (tbl_bookings (snd (create_booking db_a engine0 1 8 ''2025-10-21'' 2 0 ''pm_2'' False)))
       = [2, 2]"
    by (simp add: eval_booking)
  from create_booking_after_check_within_capacity [OF ok inv fld] ok fld made
  show ?thesis by simp
qed

text \<open>
  C2 as first stated fails: on a field of capacity 2 with no bookings, two
  \<^verbatim>\<open>create_booking\<close> calls without admin override, by two hunters for the same day with 2
  and 1 hunters, both succeed, and the pending bookings of that day sum to 3.
\<close>

theorem create_booking_capacity_counterexample:
  "tbl_fields (run_bookings db_one_field
        [(engine0, 1, 7, ''2025-10-20'', 2, 0, ''pm_1''),
         (engine0, 1, 8, ''2025-10-20'', 1, 0, ''pm_2'')]) 1
     = Some field_a
   \<and> capacity field_a = 2
   \<and> map b_status (tbl_bookings (run_bookings db_one_field
        [(engine0, 1, 7, ''2025-10-20'', 2, 0, ''pm_1''),
         (engine0, 1, 8, ''2025-10-20'', 1, 0, ''pm_2'')]))
     = [''pending'', ''pending'']
   \<and> total_hunters_booked (run_bookings db_one_field
        [(engine0, 1, 7, ''2025-10-20'', 2, 0, ''pm_1''),
         (engine0, 1, 8, ''2025-10-20'', 1, 0, ''pm_2'')])
        1 ''2025-10-20'' = 3"
  by (simp add: eval_booking)

section \<open>Hunt sessions\<close>

lemma find_replace_row:
  "find (\<lambda>h. hs_id h = sid) rows = Some x \<Longrightarrow> hs_id y = sid \<Longrightarrow>
   find (\<lambda>h. hs_id h = sid) (map (\<lambda>h. if hs_id h = sid then y else h) rows) = Some y"
  by (induction rows) (auto split: if_splits)

lemma find_session_id:
  "find (\<lambda>h. hs_id h = sid) rows = Some x \<Longrightarrow> hs_id x = sid"
  by (induction rows) (auto split: if_splits)

lemma start_hunt_session_found:
  assumes "find (\<lambda>h. hs_id h = sid) (tbl_hunt_sessions s) = Some x"
  shows "fst (start_hunt_session s sid now) = Some (x\<lparr>start_time := Some now, hs_status := ''active''\<rparr>)"
    and "find (\<lambda>h. hs_id h = sid) (tbl_hunt_sessions (snd (start_hunt_session s sid now)))
          = Some (x\<lparr>start_time := Some now, hs_status := ''active''\<rparr>)"
    and "tbl_hunt_reports (snd (start_hunt_session s sid now)) = tbl_hunt_reports s"
    and "tbl_fields (snd (start_hunt_session s sid now)) = tbl_fields s"
    and "tbl_bookings (snd (start_hunt_session s sid now)) = tbl_bookings s"
  using assms find_session_id [OF assms]
  by (simp_all add: start_hunt_session_def commit_session_def find_replace_row Let_def)

lemma end_hunt_session_found:
  assumes "find (\<lambda>h. hs_id h = sid) (tbl_hunt_sessions s) = Some x"
  shows "fst (end_hunt_session s sid now) = Some (x\<lparr>end_time := Some now, hs_status := ''completed''\<rparr>)"
    and "find (\<lambda>h. hs_id h = sid) (tbl_hunt_sessions (snd (end_hunt_session s sid now)))
          = Some (x\<lparr>end_time := Some now, hs_status := ''completed''\<rparr>)"
    and "tbl_hunt_reports (snd (end_hunt_session s sid now)) = tbl_hunt_reports s"
    and "tbl_fields (snd (end_hunt_session s sid now)) = tbl_fields s"
    and "tbl_bookings (snd (end_hunt_session s sid now)) = tbl_bookings s"
  using assms find_session_id [OF assms]
  by (simp_all add: end_hunt_session_def commit_session_def find_replace_row Let_def)

lemma session_missing:
  assumes "find (\<lambda>h. hs_id h = sid) (tbl_hunt_sessions s) = None"
  shows "start_hunt_session s sid now = (None, s)" "end_hunt_session s sid now = (None, s)"
  using assms by (simp_all add: start_hunt_session_def end_hunt_session_def)

lemma session_status_start:
  "session_status s sid = Some st \<Longrightarrow>
   session_status (snd (start_hunt_session s sid now)) sid = Some ''active''"
  by (auto simp: session_status_def start_hunt_session_found(2))

lemma session_status_end:
  "session_status s sid = Some st \<Longrightarrow>
   session_status (snd (end_hunt_session s sid now)) sid = Some ''completed''"
  by (auto simp: session_status_def end_hunt_session_found(2))

text \<open>What a report call does: refused, nothing; stored, the report row and the field.\<close>

lemma create_hunt_report_cases:
  "create_hunt_report s session_id field_id hunter_id data today = (None, s)
   \<or> (\<exists>r f. create_hunt_report s session_id field_id hunter_id data today
          = (Some r, s\<lparr>tbl_hunt_reports := tbl_hunt_reports s @ [r],
                        tbl_fields := (tbl_fields s)(field_id \<mapsto>
                          update_quarry
                            (f\<lparr>last_visit_date := Some today,
                               last_visit_had_harvest := Some (get_animals_harvested data > 0)\<rparr>)
                            (get_animals_harvested data) (get_species_harvested data))\<rparr>)
        \<and> tbl_fields s field_id = Some f \<and> r_session_id r = session_id
        \<and> session_id \<in> hs_id ` set (tbl_hunt_sessions s))"
  by (auto simp: create_hunt_report_def report_refused_def Let_def split: option.splits)

lemma create_hunt_report_refused [simp]:
  "fst (create_hunt_report s session_id field_id hunter_id data today) = None \<Longrightarrow>
   snd (create_hunt_report s session_id field_id hunter_id data today) = s"
  using create_hunt_report_cases [of s session_id field_id hunter_id data today] by auto

lemma create_hunt_report_sessions [simp]:
  "tbl_hunt_sessions (snd (create_hunt_report s session_id field_id hunter_id data today))
     = tbl_hunt_sessions s"
  using create_hunt_report_cases [of s session_id field_id hunter_id data today] by auto

lemma session_status_report [simp]:
  "session_status (snd (create_hunt_report s sid' fid hid data today)) sid = session_status s sid"
  by (simp add: session_status_def)

lemma session_status_submit:
  "session_status s sid = Some st \<Longrightarrow>
   session_status (submit_hunt_report s sid fid hid data today now) sid = Some ''completed''"
  by (simp add: submit_hunt_report_def Let_def session_status_end)

lemma page_statuses_completed:
  "session_status s sid = Some ''completed'' \<Longrightarrow>
   remdups_adj (page_statuses s sid acts) = [Some ''completed'']"
proof (induction acts arbitrary: s)
  case Nil
  then show ?case by simp
next
  case (Cons a acts)
  have "page_step s sid a = s" using Cons.prems by (cases a) auto
  with Cons show ?case by (simp add: remdups_adj_Cons)
qed

lemma page_statuses_active:
  "session_status s sid = Some ''active'' \<Longrightarrow>
   remdups_adj (page_statuses s sid acts) = [Some ''active'']
   \<or> remdups_adj (page_statuses s sid acts) = [Some ''active'', Some ''completed'']"
proof (induction acts arbitrary: s)
  case Nil
  then show ?case by simp
next
  case (Cons a acts)
  show ?case
  proof (cases a)
    case (StartDay now)
    then have "page_step s sid a = s" using Cons.prems by simp
    with Cons.IH [of s] Cons.prems show ?thesis by (auto simp: remdups_adj_Cons)
  next
    case (FinishHunt fid hid data today now)
    then have "session_status (page_step s sid a) sid = Some ''completed''"
      using Cons.prems by (simp add: session_status_submit)
    from page_statuses_completed [OF this, of acts] Cons.prems
    show ?thesis by (simp add: remdups_adj_Cons)
  qed
qed

lemma page_statuses_not_started:
  "session_status s sid = Some ''not_started'' \<Longrightarrow>
   prefix (remdups_adj (page_statuses s sid acts))
     [Some ''not_started'', Some ''active'', Some ''completed'']"
proof (induction acts arbitrary: s)
  case Nil
  then show ?case by simp
next
  case (Cons a acts)
  show ?case
  proof (cases a)
    case (StartDay now)
    then have "session_status (page_step s sid a) sid = Some ''active''"
      using Cons.prems by (simp add: session_status_start)
    from page_statuses_active [OF this, of acts] Cons.prems
    show ?thesis by (auto simp: remdups_adj_Cons)
  next
    case (FinishHunt fid hid data today now)
    then have "page_step s sid a = s" using Cons.prems by simp
    with Cons.IH [of s] Cons.prems show ?thesis
      by (auto simp: remdups_adj_Cons prefix_def split: list.splits if_splits)
  qed
qed

lemma db_session_eval:
  "db_session = db_a\<lparr>tbl_hunt_sessions :=
     [\<lparr>hs_id = 1, hs_booking_id = 1, hs_hunter_id = 7, hs_field_id = 1, start_time = None,
       end_time = None, hs_status = ''not_started''\<rparr>]\<rparr>"
  by (simp add: db_session_def create_hunt_session_def session_refused_def Let_def next_id_def
      db_a_def db_one_field_def booking_a_def)

lemmas eval_page =
  db_session_eval db_a_def db_one_field_def booking_a_def field_a_def
  start_hunt_session_def end_hunt_session_def commit_session_def session_status_def
  submit_hunt_report_def create_hunt_report_def report_refused_def update_quarry_def
  get_animals_harvested_def get_species_harvested_def empty_report_def report_of_def
  int4_def next_id_def Let_def

text \<open>
  C4, amended. \<^verbatim>\<open>start_hunt_session\<close> and \<^verbatim>\<open>end_hunt_session\<close> test no status: on an
  existing session in any status the first succeeds and leaves it active, the second
  succeeds and leaves it completed. The order is kept by the hunter's page, which calls
  the first only on a session that is \<^verbatim>\<open>not_started\<close> and the second only on one that is
  \<^verbatim>\<open>active\<close>: under any run of page actions on a session that is \<^verbatim>\<open>not_started\<close>, the
  statuses it passes through, repetitions dropped, are a prefix of
  not_started, active, completed.
\<close>

theorem session_status_sequence:
  "(session_status s session_id = Some st \<longrightarrow>
      fst (start_hunt_session s session_id now) \<noteq> None
      \<and> session_status (snd (start_hunt_session s session_id now)) session_id = Some ''active''
      \<and> fst (end_hunt_session s session_id now) \<noteq> None
      \<and> session_status (snd (end_hunt_session s session_id now)) session_id = Some ''completed'')
   \<and> (session_status s session_id = Some ''not_started'' \<longrightarrow>
        prefix (remdups_adj (page_statuses s session_id acts))
          [Some ''not_started'', Some ''active'', Some ''completed''])"
proof (intro conjI impI)
  assume st: "session_status s session_id = Some st"
  then obtain x where x: "find (\<lambda>h. hs_id h = session_id) (tbl_hunt_sessions s) = Some x"
    by (auto simp: session_status_def)
  show "fst (start_hunt_session s session_id now) \<noteq> None"
    by (simp add: start_hunt_session_found(1) [OF x])
  show "fst (end_hunt_session s session_id now) \<noteq> None"
    by (simp add: end_hunt_session_found(1) [OF x])
  show "session_status (snd (start_hunt_session s session_id now)) session_id = Some ''active''"
    by (rule session_status_start [OF st])
  show "session_status (snd (end_hunt_session s session_id now)) session_id = Some ''completed''"
    by (rule session_status_end [OF st])
next
  assume "session_status s session_id = Some ''not_started''"
  then show "prefix (remdups_adj (page_statuses s session_id acts))
          [Some ''not_started'', Some ''active'', Some ''completed'']"
    by (rule page_statuses_not_started)
qed

text \<open>
  A session made by \<^verbatim>\<open>create_hunt_session\<close>, and a run of page actions on it: start, a
  second start (not offered), finish with an empty report, and a start after the end.
\<close>

theorem session_status_sequence_witness:
  "session_status db_session 1 = Some ''not_started''
   \<and> session_status (snd (start_hunt_session db_session 1 10)) 1 = Some ''active''
   \<and> session_status (snd (end_hunt_session db_session 1 10)) 1 = Some ''completed''
   \<and> page_statuses db_session 1
        [StartDay 10, StartDay 11, FinishHunt 1 7 empty_report ''2025-10-20'' 20, StartDay 30]
       = [Some ''not_started'', Some ''active'', Some ''active'', Some ''completed'',
          Some ''completed'']
   \<and> prefix (remdups_adj (page_statuses db_session 1
        [StartDay 10, StartDay 11, FinishHunt 1 7 empty_report ''2025-10-20'' 20, StartDay 30]))
       [Some ''not_started'', Some ''active'', Some ''completed'']"
  using session_status_sequence [of db_session 1 "''not_started''" 10
      "[StartDay 10, StartDay 11, FinishHunt 1 7 empty_report ''2025-10-20'' 20, StartDay 30]"]
  by (simp add: eval_page)

text \<open>
  C4 as first stated fails for direct calls: start, end, start takes a session from
  completed back to active, and end alone takes it from not_started to completed.
\<close>

theorem session_calls_counterexample:
  "call_statuses db_session 1 [Start 10, End 20, Start 30]
     = [Some ''not_started'', Some ''active'', Some ''completed'', Some ''active'']
   \<and> call_statuses db_session 1 [End 20] = [Some ''not_started'', Some ''completed'']
   \<and> \<not> prefix (remdups_adj (call_statuses db_session 1 [Start 10, End 20, Start 30]))
         [Some ''not_started'', Some ''active'', Some ''completed'']"
  by (simp add: eval_page)

text \<open>
  C6, amended. \<^verbatim>\<open>end_hunt_session\<close> tests neither the session's status nor whether a
  report exists. For an unknown session id it returns nothing and changes nothing. For an
  existing session, in any status, it returns the session with \<open>end_time\<close> set to the
  current time and status completed, stores it so, and leaves the reports as they are. The
  report form calls \<^verbatim>\<open>create_hunt_report\<close> and then \<^verbatim>\<open>end_hunt_session\<close> whatever the
  first returned: afterwards the session is completed, and the reports are those of before
  with the new report added when it was stored, and those of before alone when it was
  refused.
\<close>

theorem end_hunt_session_effect:
  "(find (\<lambda>h. hs_id h = session_id) (tbl_hunt_sessions s) = None \<longrightarrow>
      end_hunt_session s session_id now = (None, s))
   \<and> (\<forall>x. find (\<lambda>h. hs_id h = session_id) (tbl_hunt_sessions s) = Some x \<longrightarrow>
        fst (end_hunt_session s session_id now)
          = Some (x\<lparr>end_time := Some now, hs_status := ''completed''\<rparr>)
        \<and> find (\<lambda>h. hs_id h = session_id)
              (tbl_hunt_sessions (snd (end_hunt_session s session_id now)))
            = Some (x\<lparr>end_time := Some now, hs_status := ''completed''\<rparr>)
        \<and> tbl_hunt_reports (snd (end_hunt_session s session_id now)) = tbl_hunt_reports s
        \<and> session_status (submit_hunt_report s session_id field_id hunter_id data today now)
              session_id = Some ''completed''
        \<and> tbl_hunt_reports (submit_hunt_report s session_id field_id hunter_id data today now)
            = (case fst (create_hunt_report s session_id field_id hunter_id data today) of
                 None \<Rightarrow> tbl_hunt_reports s
               | Some r \<Rightarrow> tbl_hunt_reports s @ [r]))"
proof (intro conjI allI impI)
  assume "find (\<lambda>h. hs_id h = session_id) (tbl_hunt_sessions s) = None"
  then show "end_hunt_session s session_id now = (None, s)"
    by (rule session_missing)
next
  fix x
  assume x: "find (\<lambda>h. hs_id h = session_id) (tbl_hunt_sessions s) = Some x"
  show "fst (end_hunt_session s session_id now)
          = Some (x\<lparr>end_time := Some now, hs_status := ''completed''\<rparr>)"
    by (rule end_hunt_session_found(1) [OF x])
  show "find (\<lambda>h. hs_id h = session_id)
              (tbl_hunt_sessions (snd (end_hunt_session s session_id now)))
            = Some (x\<lparr>end_time := Some now, hs_status := ''completed''\<rparr>)"
    by (rule end_hunt_session_found(2) [OF x])
  show "tbl_hunt_reports (snd (end_hunt_session s session_id now)) = tbl_hunt_reports s"
    by (rule end_hunt_session_found(3) [OF x])
  have "session_status s session_id = Some (hs_status x)"
    using x by (simp add: session_status_def)
  then show "session_status (submit_hunt_report s session_id field_id hunter_id data today now)
              session_id = Some ''completed''"
    by (rule session_status_submit)
  let ?s1 = "snd (create_hunt_report s session_id field_id hunter_id data today)"
  have x1: "find (\<lambda>h. hs_id h = session_id) (tbl_hunt_sessions ?s1) = Some x"
    using x by simp
  have "tbl_hunt_reports (submit_hunt_report s session_id field_id hunter_id data today now)
      = tbl_hunt_reports ?s1"
    using end_hunt_session_found(3) [OF x1] by (simp add: submit_hunt_report_def Let_def)
  also have "\<dots> = (case fst (create_hunt_report s session_id field_id hunter_id data today) of
                 None \<Rightarrow> tbl_hunt_reports s
               | Some r \<Rightarrow> tbl_hunt_reports s @ [r])"
    using create_hunt_report_cases [of s session_id field_id hunter_id data today] by auto
  finally show "tbl_hunt_reports (submit_hunt_report s session_id field_id hunter_id data today now)
            = (case fst (create_hunt_report s session_id field_id hunter_id data today) of
                 None \<Rightarrow> tbl_hunt_reports s
               | Some r \<Rightarrow> tbl_hunt_reports s @ [r])" .
qed

text \<open>
  Ending the unknown session 2; ending the started session 1 at time 20; the report form
  submitted for the started session 1, once by hunter 7, whose report is stored, and once
  under the unknown hunter 99, whose report is refused while the session is completed all
  the same.
\<close>

theorem end_hunt_session_effect_witness:
  "end_hunt_session db_session 2 20 = (None, db_session)
   \<and> map_option hs_status (fst (end_hunt_session (snd (start_hunt_session db_session 1 10)) 1 20))
       = Some ''completed''
   \<and> map_option end_time (fst (end_hunt_session (snd (start_hunt_session db_session 1 10)) 1 20))
       = Some (Some 20)
   \<and> map r_session_id (tbl_hunt_reports
        (submit_hunt_report (snd (start_hunt_session db_session 1 10)) 1 1 7 empty_report
           ''2025-10-20'' 20)) = [1]
   \<and> session_status
        (submit_hunt_report (snd (start_hunt_session db_session 1 10)) 1 1 7 empty_report
           ''2025-10-20'' 20) 1 = Some ''completed''
   \<and> fst (create_hunt_report (snd (start_hunt_session db_session 1 10)) 1 1 99 empty_report
           ''2025-10-20'') = None
   \<and> tbl_hunt_reports
        (submit_hunt_report (snd (start_hunt_session db_session 1 10)) 1 1 99 empty_report
           ''2025-10-20'' 20) = []
   \<and> session_status
        (submit_hunt_report (snd (start_hunt_session db_session 1 10)) 1 1 99 empty_report
           ''2025-10-20'' 20) 1 = Some ''completed''"
  using end_hunt_session_effect [of 2 db_session 20]
    end_hunt_session_effect [of 1 "snd (start_hunt_session db_session 1 10)" 20 1 7 empty_report
      "''2025-10-20''"]
    end_hunt_session_effect [of 1 "snd (start_hunt_session db_session 1 10)" 20 1 99 empty_report
      "''2025-10-20''"]
  by (simp add: eval_page)

text \<open>
  C6 as first stated fails: on a session that was never started and has no report,
  \<^verbatim>\<open>end_hunt_session\<close> does not fail; it returns the session as completed and stores it.
\<close>

theorem end_hunt_session_unguarded_counterexample:
  "session_status db_session 1 = Some ''not_started''
   \<and> tbl_hunt_reports db_session = []
   \<and> map_option hs_status (fst (end_hunt_session db_session 1 20)) = Some ''completed''
   \<and> session_status (snd (end_hunt_session db_session 1 20)) 1 = Some ''completed''
   \<and> snd (end_hunt_session db_session 1 20) \<noteq> db_session"
  by (simp add: eval_page db.ext_inject db.iffs)

section \<open>Quota depletion\<close>

lemma deplete_species_length [simp]:
  "length (deplete_species qs n k) = length qs"
  by (induction qs) auto

lemma deplete_species_keys [simp]:
  "map q_species (deplete_species qs n k) = map q_species qs"
  "map q_total (deplete_species qs n k) = map q_total qs"
  by (induction qs) auto

lemma deplete_species_nth:
  "i < length qs \<Longrightarrow>
   deplete_species qs n k ! i =
     (if q_species (qs ! i) = Some n \<and> (\<forall>j<i. q_species (qs ! j) \<noteq> Some n)
      then (qs ! i)\<lparr>q_remaining := Some (max 0 (get_remaining (qs ! i) - k))\<rparr>
      else qs ! i)"
proof (induction qs arbitrary: i)
  case Nil
  then show ?case by simp
next
  case (Cons q qs)
  show ?case
  proof (cases i)
    case 0
    then show ?thesis by simp
  next
    case (Suc i')
    with Cons.prems have i': "i' < length qs" by simp
    have all: "(\<forall>j<Suc i'. q_species ((q # qs) ! j) \<noteq> Some n)
        \<longleftrightarrow> q_species q \<noteq> Some n \<and> (\<forall>j<i'. q_species (qs ! j) \<noteq> Some n)"
      by (auto simp: less_Suc_eq_0_disj)
    show ?thesis
      unfolding Suc all using Cons.IH [OF i'] by auto
  qed
qed

lemma deplete_species_no_match:
  "\<forall>q \<in> set qs. q_species q \<noteq> Some n \<Longrightarrow> deplete_species qs n k = qs"
  by (induction qs) auto

lemma deplete_all_length [simp]:
  "length (deplete_all qs hs) = length qs"
  by (induction hs arbitrary: qs) auto

lemma deplete_all_keys [simp]:
  "map q_species (deplete_all qs hs) = map q_species qs"
  "map q_total (deplete_all qs hs) = map q_total qs"
  by (induction hs arbitrary: qs) auto

lemma nth_species:
  "i < length qs \<Longrightarrow> map q_species qs' = map q_species qs \<Longrightarrow>
   q_species (qs' ! i) = q_species (qs ! i)"
  by (metis length_map nth_map)

lemma deplete_all_nth_first:
  assumes "i < length qs" "q_species (qs ! i) = Some n"
    "\<forall>j<i. q_species (qs ! j) \<noteq> Some n"
  shows "deplete_all qs hs ! i =
     (let ks = map harvested_quantity (filter (\<lambda>h. harvested_name h = n) hs)
      in if ks = [] then qs ! i
         else (qs ! i)\<lparr>q_remaining :=
                Some (foldl (\<lambda>r k. max 0 (r - k)) (get_remaining (qs ! i)) ks)\<rparr>)"
  using assms
proof (induction hs arbitrary: qs)
  case Nil
  then show ?case by simp
next
  case (Cons h hs)
  let ?qs1 = "deplete_species qs (harvested_name h) (harvested_quantity h)"
  have len: "i < length ?qs1" using Cons.prems by simp
  have sp: "q_species (?qs1 ! i) = Some n"
    using Cons.prems nth_species [of i qs ?qs1] by simp
  have first: "\<forall>j<i. q_species (?qs1 ! j) \<noteq> Some n"
  proof (intro allI impI)
    fix j assume "j < i"
    then have "j < length qs" using Cons.prems by simp
    then have "q_species (?qs1 ! j) = q_species (qs ! j)"
      using nth_species [of j qs ?qs1] by simp
    then show "q_species (?qs1 ! j) \<noteq> Some n" using Cons.prems \<open>j < i\<close> by simp
  qed
  note IH = Cons.IH [OF len sp first]
  have step: "?qs1 ! i =
      (if harvested_name h = n
       then (qs ! i)\<lparr>q_remaining := Some (max 0 (get_remaining (qs ! i) - harvested_quantity h))\<rparr>
       else qs ! i)"
    using Cons.prems by (auto simp: deplete_species_nth)
  show ?case
  proof (cases "harvested_name h = n")
    case True
    then show ?thesis
      using IH step by (simp add: Let_def get_remaining_def)
  next
    case False
    then show ?thesis using IH step by (simp add: Let_def)
  qed
qed

lemma deplete_all_nth_other:
  assumes "i < length qs" "\<forall>h \<in> set hs. q_species (qs ! i) \<noteq> Some (harvested_name h)"
  shows "deplete_all qs hs ! i = qs ! i"
  using assms
proof (induction hs arbitrary: qs)
  case Nil
  then show ?case by simp
next
  case (Cons h hs)
  let ?qs1 = "deplete_species qs (harvested_name h) (harvested_quantity h)"
  have same: "?qs1 ! i = qs ! i"
    using Cons.prems by (simp add: deplete_species_nth)
  have "deplete_all ?qs1 hs ! i = ?qs1 ! i"
    using Cons.prems same by (intro Cons.IH) auto
  with same show ?case by simp
qed

lemma deplete_all_nth_shadowed:
  assumes "i < length qs" "j < i" "q_species (qs ! j) = q_species (qs ! i)"
  shows "deplete_all qs hs ! i = qs ! i"
  using assms
proof (induction hs arbitrary: qs)
  case Nil
  then show ?case by simp
next
  case (Cons h hs)
  let ?qs1 = "deplete_species qs (harvested_name h) (harvested_quantity h)"
  have same: "?qs1 ! i = qs ! i"
    using Cons.prems by (auto simp: deplete_species_nth)
  have "q_species (?qs1 ! j) = q_species (qs ! j)"
    using Cons.prems nth_species [of j qs ?qs1] by simp
  then have "deplete_all ?qs1 hs ! i = ?qs1 ! i"
    using Cons.prems same by (intro Cons.IH) auto
  with same show ?case by simp
qed

lemma clamp_fold_nonneg:
  "ks \<noteq> [] \<Longrightarrow> 0 \<le> foldl (\<lambda>r k. max 0 (r - k)) (r::int) ks"
  by (induction ks arbitrary: r rule: rev_induct) auto

lemma deplete_all_drop_unmatched:
  assumes "\<forall>q \<in> set qs. q_species q \<noteq> Some (harvested_name h)"
  shows "deplete_all qs (hs1 @ h # hs2) = deplete_all qs (hs1 @ hs2)"
  using assms
proof (induction hs1 arbitrary: qs)
  case Nil
  then show ?case by (simp add: deplete_species_no_match)
next
  case (Cons a hs1)
  let ?qs1 = "deplete_species qs (harvested_name a) (harvested_quantity a)"
  have "set (map q_species ?qs1) = set (map q_species qs)" by simp
  then have "\<forall>q \<in> set ?qs1. q_species q \<noteq> Some (harvested_name h)"
    using Cons.prems by (metis (no_types, lifting) image_iff list.set_map)
  from Cons.IH [OF this] show ?case by simp
qed

lemma update_quarry_list:
  "field_type f = Some ''diy-leased'' \<Longrightarrow> quarry_species f = Some qs \<Longrightarrow> qs \<noteq> [] \<Longrightarrow>
   update_quarry f a hs = f\<lparr>quarry_species := Some (deplete_all qs hs)\<rparr>"
  by (cases qs) (simp_all add: update_quarry_def)

lemma update_quarry_scalar:
  "field_type f = Some ''diy-leased'' \<Longrightarrow> quarry_species f = None \<or> quarry_species f = Some [] \<Longrightarrow>
   update_quarry f a hs =
     (case quarry_remaining f of
        None \<Rightarrow> f
      | Some r \<Rightarrow> f\<lparr>quarry_remaining := Some (max 0 (r - a))\<rparr>)"
  by (auto simp: update_quarry_def split: option.splits)

lemma update_quarry_other:
  "field_type f \<noteq> Some ''diy-leased'' \<Longrightarrow> update_quarry f a hs = f"
  by (simp add: update_quarry_def)


lemma update_quarry_remaining_any:
  "quarry_remaining (update_quarry f a hs) = quarry_remaining (update_quarry f a hs')"
  by (auto simp: update_quarry_def split: option.splits list.splits)

lemma update_quarry_total [simp]:
  "quarry_total (update_quarry f a hs) = quarry_total f"
  by (auto simp: update_quarry_def split: option.splits list.splits)

lemma create_hunt_report_fields:
  "tbl_fields (snd (create_hunt_report s session_id field_id hunter_id data today)) =
     (if fst (create_hunt_report s session_id field_id hunter_id data today) = None
      then tbl_fields s
      else (case tbl_fields s field_id of
              None \<Rightarrow> tbl_fields s
            | Some f \<Rightarrow>
                (tbl_fields s)(field_id \<mapsto>
                   update_quarry
                     (f\<lparr>last_visit_date := Some today,
                        last_visit_had_harvest := Some (get_animals_harvested data > 0)\<rparr>)
                     (get_animals_harvested data) (get_species_harvested data))))"
  using create_hunt_report_cases [of s session_id field_id hunter_id data today]
  by auto

lemma create_hunt_report_refusal:
  "fst (create_hunt_report s session_id field_id hunter_id data today) = None \<longleftrightarrow>
     session_id \<notin> hs_id ` set (tbl_hunt_sessions s)
     \<or> hunter_id \<notin> set (tbl_users s)
     \<or> \<not> int4 (get_animals_harvested data)
     \<or> (case rd_review_rating data of None \<Rightarrow> False | Some n \<Rightarrow> \<not> int4 n)
     \<or> (case tbl_fields s field_id of
           None \<Rightarrow> True
         | Some f \<Rightarrow>
             (case quarry_remaining
                     (update_quarry
                        (f\<lparr>last_visit_date := Some today,
                           last_visit_had_harvest := Some (get_animals_harvested data > 0)\<rparr>)
                        (get_animals_harvested data) (get_species_harvested data)) of
                None \<Rightarrow> False
              | Some n \<Rightarrow> \<not> int4 n))"
  by (auto simp: create_hunt_report_def report_refused_def Let_def split: option.splits)

text \<open>
  C3. For a report on a diy-leased field that is stored (a refused report changes
  nothing): if the field has a species quota list, then for a harvested species name the
  remaining of the quota dict of that name (the first, where a list names a species twice)
  becomes \<open>max 0 (old - k)\<close> when the species is harvested in one entry with quantity \<open>k\<close>,
  and with several entries of the species the same step is applied once per entry in
  order; the result is never negative. If the field has no such list, a scalar
  \<^verbatim>\<open>quarry_remaining\<close> becomes \<open>max 0 (old - animals_harvested)\<close>. A report with
  \<open>animals_harvested = 0\<close> and no species entries leaves the species list, the scalar
  remaining and the total as they were, a scalar remaining in use being non-negative as the
  quota invariant has it.
\<close>

theorem create_hunt_report_depletes_quota:
  assumes fld: "tbl_fields s field_id = Some f"
    and diy: "field_type f = Some ''diy-leased''"
    and ok: "fst (create_hunt_report s session_id field_id hunter_id data today) \<noteq> None"
  shows "\<exists>f'. tbl_fields (snd (create_hunt_report s session_id field_id hunter_id data today))
              field_id = Some f'
     \<and> (\<forall>qs. quarry_species f = Some qs \<and> qs \<noteq> [] \<longrightarrow>
          (\<exists>qs'. quarry_species f' = Some qs' \<and> length qs' = length qs
             \<and> (\<forall>i n. i < length qs \<and> q_species (qs ! i) = Some n
                       \<and> (\<forall>j<i. q_species (qs ! j) \<noteq> Some n) \<longrightarrow>
                  (\<forall>k. map harvested_quantity
                         (filter (\<lambda>h. harvested_name h = n) (get_species_harvested data)) = [k] \<longrightarrow>
                       qs' ! i = (qs ! i)\<lparr>q_remaining := Some (max 0 (get_remaining (qs ! i) - k))\<rparr>)
                  \<and> (\<forall>ks. map harvested_quantity
                         (filter (\<lambda>h. harvested_name h = n) (get_species_harvested data)) = ks
                         \<and> ks \<noteq> [] \<longrightarrow>
                       qs' ! i = (qs ! i)\<lparr>q_remaining :=
                           Some (foldl (\<lambda>r k. max 0 (r - k)) (get_remaining (qs ! i)) ks)\<rparr>
                       \<and> 0 \<le> get_remaining (qs' ! i)))))
     \<and> (\<forall>r. (quarry_species f = None \<or> quarry_species f = Some []) \<and> quarry_remaining f = Some r \<longrightarrow>
          quarry_remaining f' = Some (max 0 (r - get_animals_harvested data)))
     \<and> (get_animals_harvested data = 0 \<and> get_species_harvested data = []
          \<and> (\<forall>r. (quarry_species f = None \<or> quarry_species f = Some [])
                 \<and> quarry_remaining f = Some r \<longrightarrow> 0 \<le> r) \<longrightarrow>
          quarry_species f' = quarry_species f \<and> quarry_remaining f' = quarry_remaining f
          \<and> quarry_total f' = quarry_total f)"
proof -
  let ?a = "get_animals_harvested data" and ?hs = "get_species_harvested data"
  let ?v = "f\<lparr>last_visit_date := Some today, last_visit_had_harvest := Some (?a > 0)\<rparr>"
  let ?f' = "update_quarry ?v ?a ?hs"
  have f': "tbl_fields (snd (create_hunt_report s session_id field_id hunter_id data today))
              field_id = Some ?f'"
    using fld ok by (auto simp: create_hunt_report_fields)
  have A: "\<exists>qs'. quarry_species ?f' = Some qs' \<and> length qs' = length qs
             \<and> (\<forall>i n. i < length qs \<and> q_species (qs ! i) = Some n
                       \<and> (\<forall>j<i. q_species (qs ! j) \<noteq> Some n) \<longrightarrow>
                  (\<forall>k. map harvested_quantity (filter (\<lambda>h. harvested_name h = n) ?hs) = [k] \<longrightarrow>
                       qs' ! i = (qs ! i)\<lparr>q_remaining := Some (max 0 (get_remaining (qs ! i) - k))\<rparr>)
                  \<and> (\<forall>ks. map harvested_quantity (filter (\<lambda>h. harvested_name h = n) ?hs) = ks
                         \<and> ks \<noteq> [] \<longrightarrow>
                       qs' ! i = (qs ! i)\<lparr>q_remaining :=
                           Some (foldl (\<lambda>r k. max 0 (r - k)) (get_remaining (qs ! i)) ks)\<rparr>
                       \<and> 0 \<le> get_remaining (qs' ! i)))"
    if qs: "quarry_species f = Some qs" "qs \<noteq> []" for qs
  proof -
    have upd: "?f' = ?v\<lparr>quarry_species := Some (deplete_all qs ?hs)\<rparr>"
      using diy qs by (simp add: update_quarry_list)
    have nth: "deplete_all qs ?hs ! i =
        (qs ! i)\<lparr>q_remaining := Some (foldl (\<lambda>r k. max 0 (r - k)) (get_remaining (qs ! i)) ks)\<rparr>
        \<and> 0 \<le> get_remaining (deplete_all qs ?hs ! i)"
      if "i < length qs" "q_species (qs ! i) = Some n" "\<forall>j<i. q_species (qs ! j) \<noteq> Some n"
        "map harvested_quantity (filter (\<lambda>h. harvested_name h = n) ?hs) = ks" "ks \<noteq> []"
      for i n ks
      using deplete_all_nth_first [OF that(1-3), of ?hs] that(4,5) clamp_fold_nonneg [OF that(5)]
      by (simp add: Let_def get_remaining_def)
    have one: "deplete_all qs ?hs ! i =
        (qs ! i)\<lparr>q_remaining := Some (max 0 (get_remaining (qs ! i) - k))\<rparr>"
      if "i < length qs" "q_species (qs ! i) = Some n" "\<forall>j<i. q_species (qs ! j) \<noteq> Some n"
        "map harvested_quantity (filter (\<lambda>h. harvested_name h = n) ?hs) = [k]"
      for i n k
      using nth [OF that(1-4)] by simp
    have sp: "quarry_species ?f' = Some (deplete_all qs ?hs)"
      by (simp add: upd)
    show ?thesis
    proof (intro exI [of _ "deplete_all qs ?hs"] conjI allI impI)
      show "quarry_species ?f' = Some (deplete_all qs ?hs)" by (rule sp)
      show "length (deplete_all qs ?hs) = length qs" by simp
    next
      fix i n k
      assume a: "i < length qs \<and> q_species (qs ! i) = Some n
                       \<and> (\<forall>j<i. q_species (qs ! j) \<noteq> Some n)"
        and b: "map harvested_quantity (filter (\<lambda>h. harvested_name h = n) ?hs) = [k]"
      from a have a1: "i < length qs" and a2: "q_species (qs ! i) = Some n"
        and a3: "\<forall>j<i. q_species (qs ! j) \<noteq> Some n"
        by blast+
      show "deplete_all qs ?hs ! i
          = (qs ! i)\<lparr>q_remaining := Some (max 0 (get_remaining (qs ! i) - k))\<rparr>"
        by (rule one [OF a1 a2 a3 b])
    next
      fix i n ks
      assume a: "i < length qs \<and> q_species (qs ! i) = Some n
                       \<and> (\<forall>j<i. q_species (qs ! j) \<noteq> Some n)"
        and b: "map harvested_quantity (filter (\<lambda>h. harvested_name h = n) ?hs) = ks \<and> ks \<noteq> []"
      from a have a1: "i < length qs" and a2: "q_species (qs ! i) = Some n"
        and a3: "\<forall>j<i. q_species (qs ! j) \<noteq> Some n"
        by blast+
      from b have b1: "map harvested_quantity (filter (\<lambda>h. harvested_name h = n) ?hs) = ks"
        and b2: "ks \<noteq> []"
        by blast+
      note r = nth [OF a1 a2 a3 b1 b2]
      show "deplete_all qs ?hs ! i = (qs ! i)\<lparr>q_remaining :=
                           Some (foldl (\<lambda>r k. max 0 (r - k)) (get_remaining (qs ! i)) ks)\<rparr>"
        by (rule conjunct1 [OF r])
      show "0 \<le> get_remaining (deplete_all qs ?hs ! i)"
        by (rule conjunct2 [OF r])
    qed
  qed
  have B: "quarry_remaining ?f' = Some (max 0 (r - ?a))"
    if "quarry_species f = None \<or> quarry_species f = Some []" "quarry_remaining f = Some r" for r
    using that diy by (auto simp: update_quarry_scalar)
  have C: "quarry_species ?f' = quarry_species f \<and> quarry_remaining ?f' = quarry_remaining f
          \<and> quarry_total ?f' = quarry_total f"
    if z: "?a = 0" "?hs = []"
      and nn: "\<forall>r. (quarry_species f = None \<or> quarry_species f = Some [])
                 \<and> quarry_remaining f = Some r \<longrightarrow> 0 \<le> r"
  proof (cases "quarry_species f = None \<or> quarry_species f = Some []")
    case True
    then show ?thesis
      using diy z nn by (auto simp: update_quarry_scalar split: option.splits)
  next
    case False
    then obtain qs where "quarry_species f = Some qs" "qs \<noteq> []" by auto
    then show ?thesis using diy z by (simp add: update_quarry_list)
  qed
  from f' A B C show ?thesis by blast
qed

lemmas eval_report_call =
  db_diy_eval db_booked_eval eval_report create_hunt_report_def report_refused_def int4_def
  next_id_def Let_def

text \<open>
  Two reports on a field with ten of ten red deer left: three harvested leave 7, eight more
  leave 0. On a field with a scalar quota of 4, six animals leave 0 and an empty report
  leaves 4; an empty report leaves a species list as it is.
\<close>

theorem create_hunt_report_depletes_quota_witness:
  "map_option quarry_species
     (tbl_fields (snd (create_hunt_report db_diy 2 2 7
        (report_of 3 [harvest ''Red Deer'' 3]) ''2025-10-20'')) 2)
     = Some (Some [red_deer\<lparr>q_remaining := Some 7\<rparr>, fox])
   \<and> map_option quarry_species
     (tbl_fields (snd (create_hunt_report
        (snd (create_hunt_report db_diy 2 2 7 (report_of 3 [harvest ''Red Deer'' 3]) ''2025-10-20''))
        2 2 7 (report_of 8 [harvest ''Red Deer'' 8]) ''2025-10-20'')) 2)
     = Some (Some [red_deer\<lparr>q_remaining := Some 0\<rparr>, fox])
   \<and> map_option quarry_remaining
     (tbl_fields (snd (create_hunt_report db_diy 3 3 7 (report_of 6 []) ''2025-10-21'')) 3)
     = Some (Some 0)
   \<and> map_option quarry_remaining
     (tbl_fields (snd (create_hunt_report db_diy 3 3 7 empty_report ''2025-10-21'')) 3)
     = Some (Some 4)
   \<and> map_option quarry_species
     (tbl_fields (snd (create_hunt_report db_diy 2 2 7 empty_report ''2025-10-20'')) 2)
     = Some (Some [red_deer, fox])"
proof -
  have 2: "tbl_fields db_diy 2 = Some field_diy" and 3: "tbl_fields db_diy 3 = Some field_scalar"
    by (simp_all add: eval_report_call)
  have d2: "field_type field_diy = Some ''diy-leased''"
    and d3: "field_type field_scalar = Some ''diy-leased''"
    by (simp_all add: field_diy_def field_scalar_def)
  have ok1: "fst (create_hunt_report db_diy 2 2 7 (report_of 3 [harvest ''Red Deer'' 3])
      ''2025-10-20'') \<noteq> None"
    and ok2: "fst (create_hunt_report db_diy 3 3 7 (report_of 6 []) ''2025-10-21'') \<noteq> None"
    and ok3: "fst (create_hunt_report db_diy 3 3 7 empty_report ''2025-10-21'') \<noteq> None"
    by (simp_all add: eval_report_call)
  have rest: "map_option quarry_species
     (tbl_fields (snd (create_hunt_report
        (snd (create_hunt_report db_diy 2 2 7 (report_of 3 [harvest ''Red Deer'' 3]) ''2025-10-20''))
        2 2 7 (report_of 8 [harvest ''Red Deer'' 8]) ''2025-10-20'')) 2)
     = Some (Some [red_deer\<lparr>q_remaining := Some 0\<rparr>, fox])"
    "map_option quarry_species
     (tbl_fields (snd (create_hunt_report db_diy 2 2 7 empty_report ''2025-10-20'')) 2)
     = Some (Some [red_deer, fox])"
    by (simp_all add: eval_report_call)
  from create_hunt_report_depletes_quota [OF 2 d2 ok1]
    create_hunt_report_depletes_quota [OF 3 d3 ok2]
    create_hunt_report_depletes_quota [OF 3 d3 ok3] rest
  show ?thesis
    by (simp add: eval_report_call)
qed

lemma quota_ok_lowered:
  "0 \<le> k \<Longrightarrow> quota_ok q \<Longrightarrow>
   quota_ok (q\<lparr>q_remaining := Some (max 0 (get_remaining q - k))\<rparr>)"
  by (auto simp: quota_ok_def get_remaining_def get_total_def split: option.splits)

lemma deplete_species_nth_ok:
  "i < length qs \<Longrightarrow> 0 \<le> k \<Longrightarrow> quota_ok (qs ! i) \<Longrightarrow> quota_ok (deplete_species qs n k ! i)"
  by (simp add: deplete_species_nth quota_ok_lowered)

lemma deplete_all_nth_ok:
  "i < length qs \<Longrightarrow> \<forall>h \<in> set hs. 0 \<le> harvested_quantity h \<Longrightarrow> quota_ok (qs ! i) \<Longrightarrow>
   quota_ok (deplete_all qs hs ! i)"
proof (induction hs arbitrary: qs)
  case Nil
  then show ?case by simp
next
  case (Cons h hs)
  let ?qs1 = "deplete_species qs (harvested_name h) (harvested_quantity h)"
  have "quota_ok (?qs1 ! i)"
    using Cons.prems by (simp add: deplete_species_nth_ok)
  moreover have "i < length ?qs1" using Cons.prems by simp
  ultimately have "quota_ok (deplete_all ?qs1 hs ! i)"
    using Cons.prems by (intro Cons.IH) auto
  then show ?case by simp
qed

lemma update_quarry_keeps_entries:
  assumes "0 \<le> a" "\<forall>h \<in> set hs. 0 \<le> harvested_quantity h"
  shows "(\<forall>qs. quarry_species f = Some qs \<longrightarrow>
            (\<exists>qs'. quarry_species (update_quarry f a hs) = Some qs' \<and> length qs' = length qs
               \<and> (\<forall>i<length qs. quota_ok (qs ! i) \<longrightarrow> quota_ok (qs' ! i))))
       \<and> (\<forall>r. quarry_remaining f = Some r \<longrightarrow>
            (\<exists>r'. quarry_remaining (update_quarry f a hs) = Some r'
               \<and> (0 \<le> r \<longrightarrow> 0 \<le> r' \<and> r' \<le> r)))"
proof (cases "field_type f = Some ''diy-leased''")
  case False
  then show ?thesis by (simp add: update_quarry_other)
next
  case True
  show ?thesis
  proof (cases "quarry_species f = None \<or> quarry_species f = Some []")
    case True
    with \<open>field_type f = Some ''diy-leased''\<close> assms show ?thesis
      by (auto simp: update_quarry_scalar split: option.splits)
  next
    case False
    then obtain qs where qs: "quarry_species f = Some qs" "qs \<noteq> []" by auto
    with True assms show ?thesis
      by (auto simp: update_quarry_list deplete_all_nth_ok)
  qed
qed

text \<open>
  C7, amended. For every field, whichever field the report names, and for every quota
  entry of it: if \<open>0 \<le> remaining \<le> total\<close> holds for that dict of the species list, or for
  the scalar pair, before a \<^verbatim>\<open>create_hunt_report\<close> call whose \<open>animals_harvested\<close> and
  species quantities are not negative, it holds for it after the call, stored or refused.
\<close>

theorem create_hunt_report_keeps_quota_invariant:
  assumes fld: "tbl_fields s fid = Some f"
    and a: "0 \<le> get_animals_harvested data"
    and hs: "\<forall>h \<in> set (get_species_harvested data). 0 \<le> harvested_quantity h"
  shows "\<exists>f'. tbl_fields (snd (create_hunt_report s session_id field_id hunter_id data today)) fid
            = Some f'
     \<and> quarry_total f' = quarry_total f
     \<and> (\<forall>qs. quarry_species f = Some qs \<longrightarrow>
          (\<exists>qs'. quarry_species f' = Some qs' \<and> length qs' = length qs
             \<and> (\<forall>i<length qs. 0 \<le> get_remaining (qs ! i)
                     \<and> get_remaining (qs ! i) \<le> get_total (qs ! i) \<longrightarrow>
                   0 \<le> get_remaining (qs' ! i) \<and> get_remaining (qs' ! i) \<le> get_total (qs' ! i))))
     \<and> (\<forall>r t. quarry_remaining f = Some r \<and> quarry_total f = Some t \<and> 0 \<le> r \<and> r \<le> t \<longrightarrow>
          (\<exists>r'. quarry_remaining f' = Some r' \<and> 0 \<le> r' \<and> r' \<le> t))"
proof -
  let ?a = "get_animals_harvested data" and ?hs = "get_species_harvested data"
  let ?v = "f\<lparr>last_visit_date := Some today, last_visit_had_harvest := Some (?a > 0)\<rparr>"
  have same: ?thesis
    if "tbl_fields (snd (create_hunt_report s session_id field_id hunter_id data today)) fid
          = Some f"
    using that by auto
  show ?thesis
  proof (cases "fid = field_id
      \<and> fst (create_hunt_report s session_id field_id hunter_id data today) \<noteq> None")
    case False
    then have "tbl_fields (snd (create_hunt_report s session_id field_id hunter_id data today)) fid
          = Some f"
      using fld by (auto simp: create_hunt_report_fields split: option.splits)
    then show ?thesis by (rule same)
  next
    case True
    then have f': "tbl_fields (snd (create_hunt_report s session_id field_id hunter_id data today))
        fid = Some (update_quarry ?v ?a ?hs)"
      using fld by (auto simp: create_hunt_report_fields)
    from update_quarry_keeps_entries [OF a hs, of ?v]
    have "(\<forall>qs. quarry_species f = Some qs \<longrightarrow>
            (\<exists>qs'. quarry_species (update_quarry ?v ?a ?hs) = Some qs' \<and> length qs' = length qs
               \<and> (\<forall>i<length qs. quota_ok (qs ! i) \<longrightarrow> quota_ok (qs' ! i))))"
      and "(\<forall>r. quarry_remaining f = Some r \<longrightarrow>
            (\<exists>r'. quarry_remaining (update_quarry ?v ?a ?hs) = Some r'
               \<and> (0 \<le> r \<longrightarrow> 0 \<le> r' \<and> r' \<le> r)))"
      by simp_all
    with f' show ?thesis
      unfolding quota_ok_def by (intro exI [of _ "update_quarry ?v ?a ?hs"]) fastforce
  qed
qed

text \<open>
  A report of twelve red deer against ten left, and one of six animals against a scalar
  quota of four of ten: both stay within their quotas.
\<close>

theorem create_hunt_report_keeps_quota_invariant_witness:
  "quota_ok red_deer \<and> quota_ok fox
   \<and> map_option quarry_species
       (tbl_fields (snd (create_hunt_report db_diy 2 2 7
          (report_of 12 [harvest ''Red Deer'' 12]) ''2025-10-20'')) 2)
       = Some (Some [red_deer\<lparr>q_remaining := Some 0\<rparr>, fox])
   \<and> quota_ok (red_deer\<lparr>q_remaining := Some 0\<rparr>)
   \<and> map_option quarry_remaining
       (tbl_fields (snd (create_hunt_report db_diy 3 3 7 (report_of 6 []) ''2025-10-21'')) 3)
       = Some (Some 0)
   \<and> map_option quarry_total
       (tbl_fields (snd (create_hunt_report db_diy 3 3 7 (report_of 6 []) ''2025-10-21'')) 3)
       = Some (Some 10)"
proof -
  have 2: "tbl_fields db_diy 2 = Some field_diy" and 3: "tbl_fields db_diy 3 = Some field_scalar"
    by (simp_all add: eval_report_call)
  have 5: "0 \<le> get_animals_harvested (report_of 12 [harvest ''Red Deer'' 12])"
    and 6: "\<forall>h \<in> set (get_species_harvested (report_of 12 [harvest ''Red Deer'' 12])).
              0 \<le> harvested_quantity h"
    and 7: "0 \<le> get_animals_harvested (report_of 6 [])"
    and 8: "\<forall>h \<in> set (get_species_harvested (report_of 6 [])). 0 \<le> harvested_quantity h"
    by (simp_all add: eval_report)
  have vals: "map_option quarry_species
       (tbl_fields (snd (create_hunt_report db_diy 2 2 7
          (report_of 12 [harvest ''Red Deer'' 12]) ''2025-10-20'')) 2)
       = Some (Some [red_deer\<lparr>q_remaining := Some 0\<rparr>, fox])"
    "map_option quarry_remaining
       (tbl_fields (snd (create_hunt_report db_diy 3 3 7 (report_of 6 []) ''2025-10-21'')) 3)
       = Some (Some 0)"
    by (simp_all add: eval_report_call)
  from create_hunt_report_keeps_quota_invariant [OF 2 5 6, of 2 2 7 "''2025-10-20''"]
    create_hunt_report_keeps_quota_invariant [OF 3 7 8, of 3 3 7 "''2025-10-21''"] vals
  show ?thesis
    by (auto simp: quota_ok_def eval_report)
qed

text \<open>
  C7 as first stated fails for a negative quantity: a stored report of -5 red deer on a
  field with ten of ten left raises the remaining to 15, above the total.
\<close>

theorem negative_quantity_counterexample:
  "tbl_fields db_diy 2 = Some field_diy
   \<and> quarry_species field_diy = Some [red_deer, fox]
   \<and> quota_ok red_deer
   \<and> fst (create_hunt_report db_diy 2 2 7
          (report_of 0 [harvest ''Red Deer'' (- 5)]) ''2025-10-20'') \<noteq> None
   \<and> map_option quarry_species
       (tbl_fields (snd (create_hunt_report db_diy 2 2 7
          (report_of 0 [harvest ''Red Deer'' (- 5)]) ''2025-10-20'')) 2)
       = Some (Some [\<lparr>q_species = Some ''Red Deer'', q_total = Some 10, q_remaining = Some 15\<rparr>,
                     fox])
   \<and> \<not> quota_ok \<lparr>q_species = Some ''Red Deer'', q_total = Some 10, q_remaining = Some 15\<rparr>"
  by (simp add: eval_report_call quota_ok_def)

text \<open>
  C10. A report on a diy-leased field with a species quota list leaves every quota dict
  whose species is not the name of any harvested entry as it was. A harvested entry whose
  name matches no quota dict is ignored: the same report without that entry is stored or
  refused alike, and gives exactly the same fields. On a field that is not diy-leased, a
  report changes neither the species list nor the scalar remaining nor the total, and a
  report changes no field but the one it names.
\<close>

theorem create_hunt_report_quota_frame:
  assumes fld: "tbl_fields s field_id = Some f"
  shows "\<exists>f'. tbl_fields (snd (create_hunt_report s session_id field_id hunter_id data today))
              field_id = Some f'
     \<and> (field_type f = Some ''diy-leased'' \<longrightarrow>
          (\<forall>qs. quarry_species f = Some qs \<and> qs \<noteq> [] \<longrightarrow>
             (\<exists>qs'. quarry_species f' = Some qs' \<and> length qs' = length qs
                \<and> (\<forall>i<length qs.
                      (\<forall>h \<in> set (get_species_harvested data).
                          q_species (qs ! i) \<noteq> Some (harvested_name h)) \<longrightarrow>
                      qs' ! i = qs ! i))))
     \<and> (field_type f = Some ''diy-leased'' \<longrightarrow>
          (\<forall>qs hs1 h hs2. quarry_species f = Some qs
               \<and> get_species_harvested data = hs1 @ h # hs2
               \<and> (\<forall>q \<in> set qs. q_species q \<noteq> Some (harvested_name h)) \<longrightarrow>
             (fst (create_hunt_report s session_id field_id hunter_id data today) = None
                \<longleftrightarrow> fst (create_hunt_report s session_id field_id hunter_id
                        (data\<lparr>rd_species_harvested := Some (hs1 @ hs2)\<rparr>) today) = None)
             \<and> tbl_fields (snd (create_hunt_report s session_id field_id hunter_id data today))
               = tbl_fields
                   (snd (create_hunt_report s session_id field_id hunter_id
                      (data\<lparr>rd_species_harvested := Some (hs1 @ hs2)\<rparr>) today))))
     \<and> (field_type f \<noteq> Some ''diy-leased'' \<longrightarrow>
          quarry_species f' = quarry_species f \<and> quarry_remaining f' = quarry_remaining f
          \<and> quarry_total f' = quarry_total f)
     \<and> (\<forall>other. other \<noteq> field_id \<longrightarrow>
          tbl_fields (snd (create_hunt_report s session_id field_id hunter_id data today)) other
            = tbl_fields s other)"
proof -
  let ?a = "get_animals_harvested data" and ?hs = "get_species_harvested data"
  let ?v = "f\<lparr>last_visit_date := Some today, last_visit_had_harvest := Some (?a > 0)\<rparr>"
  let ?s' = "snd (create_hunt_report s session_id field_id hunter_id data today)"
  let ?ok = "fst (create_hunt_report s session_id field_id hunter_id data today) \<noteq> None"
  let ?f' = "if ?ok then update_quarry ?v ?a ?hs else f"
  have f': "tbl_fields ?s' field_id = Some ?f'"
    using fld by (auto simp: create_hunt_report_fields)
  have D: "tbl_fields ?s' other = tbl_fields s other" if "other \<noteq> field_id" for other
    using fld that by (auto simp: create_hunt_report_fields)
  have A: "\<exists>qs'. quarry_species ?f' = Some qs' \<and> length qs' = length qs
                \<and> (\<forall>i<length qs.
                      (\<forall>h \<in> set ?hs. q_species (qs ! i) \<noteq> Some (harvested_name h)) \<longrightarrow>
                      qs' ! i = qs ! i)"
    if diy: "field_type f = Some ''diy-leased''" and qs: "quarry_species f = Some qs" "qs \<noteq> []"
    for qs
  proof (cases ?ok)
    case True
    then have "quarry_species ?f' = Some (deplete_all qs ?hs)"
      using diy qs by (simp add: update_quarry_list)
    then show ?thesis
      by (auto simp: deplete_all_nth_other)
  next
    case False
    then show ?thesis using qs by simp
  qed
  have B: "(fst (create_hunt_report s session_id field_id hunter_id data today) = None
                \<longleftrightarrow> fst (create_hunt_report s session_id field_id hunter_id
                        (data\<lparr>rd_species_harvested := Some (hs1 @ hs2)\<rparr>) today) = None)
      \<and> tbl_fields ?s'
        = tbl_fields
            (snd (create_hunt_report s session_id field_id hunter_id
               (data\<lparr>rd_species_harvested := Some (hs1 @ hs2)\<rparr>) today))"
    if diy: "field_type f = Some ''diy-leased''" and qs: "quarry_species f = Some qs"
      and hs: "?hs = hs1 @ h # hs2"
      and un: "\<forall>q \<in> set qs. q_species q \<noteq> Some (harvested_name h)"
    for qs hs1 h hs2
  proof -
    let ?data' = "data\<lparr>rd_species_harvested := Some (hs1 @ hs2)\<rparr>"
    have a: "get_animals_harvested ?data' = ?a"
      and hs': "get_species_harvested ?data' = hs1 @ hs2"
      and rt: "rd_review_rating ?data' = rd_review_rating data"
      by (simp_all add: get_animals_harvested_def get_species_harvested_def)
    have upd: "update_quarry ?v ?a (hs1 @ h # hs2) = update_quarry ?v ?a (hs1 @ hs2)"
    proof (cases "qs = []")
      case True
      with diy qs show ?thesis by (simp add: update_quarry_scalar)
    next
      case False
      with diy qs deplete_all_drop_unmatched [OF un, of hs1 hs2] show ?thesis
        by (simp add: update_quarry_list)
    qed
    have refusal: "fst (create_hunt_report s session_id field_id hunter_id data today) = None
        \<longleftrightarrow> fst (create_hunt_report s session_id field_id hunter_id ?data' today) = None"
      using fld by (simp add: create_hunt_report_refusal a hs' rt hs upd)
    moreover have "tbl_fields ?s'
        = tbl_fields (snd (create_hunt_report s session_id field_id hunter_id ?data' today))"
      unfolding create_hunt_report_fields refusal [symmetric]
      using fld by (simp add: a hs' hs upd)
    ultimately show ?thesis by simp
  qed
  have C: "quarry_species ?f' = quarry_species f \<and> quarry_remaining ?f' = quarry_remaining f
          \<and> quarry_total ?f' = quarry_total f"
    if "field_type f \<noteq> Some ''diy-leased''"
    using that by (simp add: update_quarry_other)
  from f' A B C D show ?thesis by blast
qed

text \<open>
  Three red deer and one hare reported on a field with quotas for red deer and fox: the
  report is stored, the fox quota is untouched, the hare changes nothing, the other fields
  are as before, and the same report on a subsidised field leaves its quota columns empty.
\<close>

theorem create_hunt_report_quota_frame_witness:
  "fst (create_hunt_report db_diy 2 2 7
        (report_of 4 [harvest ''Red Deer'' 3, harvest ''Hare'' 1]) ''2025-10-20'') \<noteq> None
   \<and> map_option quarry_species
     (tbl_fields (snd (create_hunt_report db_diy 2 2 7
        (report_of 4 [harvest ''Red Deer'' 3, harvest ''Hare'' 1]) ''2025-10-20'')) 2)
     = Some (Some [red_deer\<lparr>q_remaining := Some 7\<rparr>, fox])
   \<and> tbl_fields (snd (create_hunt_report db_diy 2 2 7
        (report_of 4 [harvest ''Red Deer'' 3, harvest ''Hare'' 1]) ''2025-10-20''))
     = tbl_fields (snd (create_hunt_report db_diy 2 2 7
        (report_of 4 [harvest ''Red Deer'' 3]) ''2025-10-20''))
   \<and> tbl_fields (snd (create_hunt_report db_diy 2 2 7
        (report_of 4 [harvest ''Red Deer'' 3, harvest ''Hare'' 1]) ''2025-10-20'')) 3
     = Some field_scalar
   \<and> map_option quarry_species
     (tbl_fields (snd (create_hunt_report db_diy 1 1 7
        (report_of 4 [harvest ''Red Deer'' 3, harvest ''Hare'' 1]) ''2025-10-19'')) 1)
     = Some None"
proof -
  have 2: "tbl_fields db_diy 2 = Some field_diy" and 1: "tbl_fields db_diy 1 = Some field_a"
    and 3: "tbl_fields db_diy 3 = Some field_scalar"
    by (simp_all add: eval_report_call)
  have d: "(report_of 4 [harvest ''Red Deer'' 3, harvest ''Hare'' 1])
      \<lparr>rd_species_harvested := Some ([harvest ''Red Deer'' 3] @ [])\<rparr>
      = report_of 4 [harvest ''Red Deer'' 3]"
    by (simp add: report_of_def)
  from create_hunt_report_quota_frame [OF 2, of 2 7
      "report_of 4 [harvest ''Red Deer'' 3, harvest ''Hare'' 1]" "''2025-10-20''"]
  obtain f' where f': "tbl_fields (snd (create_hunt_report db_diy 2 2 7
        (report_of 4 [harvest ''Red Deer'' 3, harvest ''Hare'' 1]) ''2025-10-20'')) 2 = Some f'"
    and frame: "\<forall>qs hs1 h hs2. quarry_species field_diy = Some qs
               \<and> get_species_harvested (report_of 4 [harvest ''Red Deer'' 3, harvest ''Hare'' 1])
                   = hs1 @ h # hs2
               \<and> (\<forall>q \<in> set qs. q_species q \<noteq> Some (harvested_name h)) \<longrightarrow>
             tbl_fields (snd (create_hunt_report db_diy 2 2 7
                (report_of 4 [harvest ''Red Deer'' 3, harvest ''Hare'' 1]) ''2025-10-20''))
               = tbl_fields
                   (snd (create_hunt_report db_diy 2 2 7
                      ((report_of 4 [harvest ''Red Deer'' 3, harvest ''Hare'' 1])
                         \<lparr>rd_species_harvested := Some (hs1 @ hs2)\<rparr>) ''2025-10-20''))"
    and others: "\<forall>other. other \<noteq> 2 \<longrightarrow>
          tbl_fields (snd (create_hunt_report db_diy 2 2 7
            (report_of 4 [harvest ''Red Deer'' 3, harvest ''Hare'' 1]) ''2025-10-20'')) other
            = tbl_fields db_diy other"
    by (auto simp: field_diy_def)
  have "tbl_fields (snd (create_hunt_report db_diy 2 2 7
        (report_of 4 [harvest ''Red Deer'' 3, harvest ''Hare'' 1]) ''2025-10-20''))
     = tbl_fields (snd (create_hunt_report db_diy 2 2 7
        (report_of 4 [harvest ''Red Deer'' 3]) ''2025-10-20''))"
    using frame [rule_format, of "[red_deer, fox]" "[harvest ''Red Deer'' 3]" "harvest ''Hare'' 1" "[]"]
    unfolding d
    by (simp add: field_diy_def report_of_def get_species_harvested_def red_deer_def fox_def
        harvest_def harvested_name_def)
  moreover
  have "fst (create_hunt_report db_diy 2 2 7
        (report_of 4 [harvest ''Red Deer'' 3, harvest ''Hare'' 1]) ''2025-10-20'') \<noteq> None"
    "map_option quarry_species
     (tbl_fields (snd (create_hunt_report db_diy 2 2 7
        (report_of 4 [harvest ''Red Deer'' 3, harvest ''Hare'' 1]) ''2025-10-20'')) 2)
     = Some (Some [red_deer\<lparr>q_remaining := Some 7\<rparr>, fox])"
    by (simp_all add: eval_report_call)
  moreover
  have "tbl_fields (snd (create_hunt_report db_diy 2 2 7
        (report_of 4 [harvest ''Red Deer'' 3, harvest ''Hare'' 1]) ''2025-10-20'')) 3
     = Some field_scalar"
    using others 3 by simp
  moreover
  have "map_option quarry_species
     (tbl_fields (snd (create_hunt_report db_diy 1 1 7
        (report_of 4 [harvest ''Red Deer'' 3, harvest ''Hare'' 1]) ''2025-10-19'')) 1)
     = Some None"
    using create_hunt_report_quota_frame [OF 1, of 1 7
      "report_of 4 [harvest ''Red Deer'' 3, harvest ''Hare'' 1]" "''2025-10-19''"]
    by (auto simp: field_a_def)
  ultimately show ?thesis by simp
qed

section \<open>Animal tags\<close>

lemma call_create_animal_tag_cases:
  "call_create_animal_tag s c = (None, s)
   \<or> (\<exists>t. call_create_animal_tag s c = (Some t, s\<lparr>tbl_animal_tags := tbl_animal_tags s @ [t]\<rparr>)
        \<and> tag_number t = c_uuid c
        \<and> tag_number t \<notin> tag_number ` set (tbl_animal_tags s))"
  by (auto simp: call_create_animal_tag_def create_animal_tag_def tag_refused_def Let_def)

lemma run_tags_table:
  "tbl_animal_tags (snd (run_tags s cs)) = tbl_animal_tags s @ fst (run_tags s cs)
   \<and> distinct (map tag_number (fst (run_tags s cs)))
   \<and> (\<forall>t \<in> set (fst (run_tags s cs)). tag_number t \<notin> tag_number ` set (tbl_animal_tags s))"
proof (induction cs arbitrary: s)
  case Nil
  then show ?case by simp
next
  case (Cons c cs)
  from call_create_animal_tag_cases [of s c]
  consider (refused) "call_create_animal_tag s c = (None, s)"
    | (stored) t where
        "call_create_animal_tag s c = (Some t, s\<lparr>tbl_animal_tags := tbl_animal_tags s @ [t]\<rparr>)"
        "tag_number t \<notin> tag_number ` set (tbl_animal_tags s)"
    by blast
  then show ?case
  proof cases
    case refused
    with Cons.IH [of s] show ?thesis by simp
  next
    case stored
    let ?s1 = "s\<lparr>tbl_animal_tags := tbl_animal_tags s @ [t]\<rparr>"
    from Cons.IH [of ?s1] stored show ?thesis by auto
  qed
qed

lemma find_in_distinct:
  "t \<in> set ys \<Longrightarrow> distinct (map tag_number ys) \<Longrightarrow>
   find (\<lambda>u. tag_number u = tag_number t) ys = Some t"
  by (induction ys) (auto simp: image_iff)

lemma find_skip_prefix:
  "\<forall>u \<in> set xs. \<not> P u \<Longrightarrow> find P (xs @ ys) = find P ys"
  by (induction xs) auto

text \<open>
  C8. In any run of \<^verbatim>\<open>create_animal_tag\<close> calls, whatever numbers the generator returns,
  the tags the calls return have pairwise distinct tag numbers, none of them a number
  stored before the run (a call whose number is already stored is refused and returns no
  tag). The tags stored after the run are those of before followed by the returned ones,
  none is removed. \<^verbatim>\<open>get_animal_tag_by_tag_number\<close> on the number of a returned tag gives
  exactly that tag, on a string that is the number of no stored and no returned tag it
  gives nothing, and it never changes the database.
\<close>

theorem animal_tag_numbers_unique:
  "distinct (map tag_number (fst (run_tags s calls)))
   \<and> tbl_animal_tags (snd (run_tags s calls)) = tbl_animal_tags s @ fst (run_tags s calls)
   \<and> (\<forall>t \<in> set (fst (run_tags s calls)).
        tag_number t \<notin> tag_number ` set (tbl_animal_tags s)
        \<and> get_animal_tag_by_tag_number (snd (run_tags s calls)) (tag_number t)
            = (Some t, snd (run_tags s calls)))
   \<and> (\<forall>number. number \<notin> tag_number ` set (tbl_animal_tags s)
          \<and> number \<notin> tag_number ` set (fst (run_tags s calls)) \<longrightarrow>
        get_animal_tag_by_tag_number (snd (run_tags s calls)) number
          = (None, snd (run_tags s calls)))"
proof -
  note tab = run_tags_table [of s calls]
  have issued: "tag_number t \<notin> tag_number ` set (tbl_animal_tags s)
        \<and> get_animal_tag_by_tag_number (snd (run_tags s calls)) (tag_number t)
            = (Some t, snd (run_tags s calls))"
    if t: "t \<in> set (fst (run_tags s calls))" for t
  proof -
    from tab t have fresh: "tag_number t \<notin> tag_number ` set (tbl_animal_tags s)" by blast
    then have "\<forall>u \<in> set (tbl_animal_tags s). \<not> tag_number u = tag_number t"
      by (auto simp: image_iff)
    from find_skip_prefix [OF this, of "fst (run_tags s calls)"]
      find_in_distinct [OF t] tab
    have "find (\<lambda>u. tag_number u = tag_number t) (tbl_animal_tags (snd (run_tags s calls)))
        = Some t"
      by simp
    with fresh show ?thesis by (simp add: get_animal_tag_by_tag_number_def)
  qed
  have unissued: "get_animal_tag_by_tag_number (snd (run_tags s calls)) number
          = (None, snd (run_tags s calls))"
    if "number \<notin> tag_number ` set (tbl_animal_tags s)
          \<and> number \<notin> tag_number ` set (fst (run_tags s calls))" for number
    using that tab by (auto simp: get_animal_tag_by_tag_number_def find_None_iff image_iff)
  from tab issued unissued show ?thesis by blast
qed

lemma db_reported_eval:
  "tbl_animal_tags db_reported = []"
  "r_id ` set (tbl_hunt_reports db_reported) = {1}"
  "tbl_users db_reported = [7, 8]"
  "tbl_fields db_reported 2 \<noteq> None"
  by (simp_all add: db_reported_def eval_report_call)

text \<open>
  Three calls after a stored report, the third with the number of the first: two tags are
  issued, the third call is refused, each number finds its tag, and an unissued string
  finds nothing.
\<close>

theorem animal_tag_numbers_unique_witness:
  "map tag_number (fst (run_tags db_reported
       [tag_call_of ''tag-1'', tag_call_of ''tag-2'', tag_call_of ''tag-1'']))
     = [''tag-1'', ''tag-2'']
   \<and> map tag_number (tbl_animal_tags (snd (run_tags db_reported
       [tag_call_of ''tag-1'', tag_call_of ''tag-2'', tag_call_of ''tag-1''])))
     = [''tag-1'', ''tag-2'']
   \<and> map_option photo_path (fst (get_animal_tag_by_tag_number (snd (run_tags db_reported
       [tag_call_of ''tag-1'', tag_call_of ''tag-2'', tag_call_of ''tag-1''])) ''tag-2''))
     = Some (Some ''animal_photos/tag-2.jpg'')
   \<and> fst (get_animal_tag_by_tag_number (snd (run_tags db_reported
       [tag_call_of ''tag-1'', tag_call_of ''tag-2'', tag_call_of ''tag-1''])) ''tag-3'') = None"
  using animal_tag_numbers_unique [of db_reported
      "[tag_call_of ''tag-1'', tag_call_of ''tag-2'', tag_call_of ''tag-1'']"]
  by (simp add: db_reported_eval call_create_animal_tag_def create_animal_tag_def
      tag_refused_def tag_call_of_def get_animal_tag_by_tag_number_def next_id_def Let_def)

end
